theory Spec2Isabelle
  imports Complex_Main "HOL-Library.Word"
begin

unbundle bit_operations_syntax

section \<open>The SEVIRI native format reader (satpy/readers/seviri\_l1b\_native.py)\<close>

text \<open>
  Conventions of the embedding.
  \<^item> Python floats are modelled as \<^typ>\<open>real\<close>: every arithmetic expression of the source
    is kept with its own shape, and rounding is not modelled. Python integers are
    \<^typ>\<open>int\<close>, table positions and array sizes are \<^typ>\<open>nat\<close>.
  \<^item> An exception is a value \<open>Inl e\<close> of the result type \<open>error + 'a\<close>.
  \<^item> The nested dictionaries \<open>self.header\<close> and \<open>self.trailer\<close> are nested records with
    the key names of the source; a leading digit of a key is dropped
    (\<open>'15_DATA_HEADER'\<close> is \<open>DATA_HEADER\<close>), and the innermost \<open>['Value']\<close> level of the
    secondary product header is folded into its field, which holds the integer that
    \<open>int(...)\<close> reads from it.
  \<^item> A \<open>dataset_id\<close> is given by the entries that a method reads from it: the channel
    name, and the calibration level where it is read.
  \<^item> Only the header and trailer fields read by the modelled methods are kept.
  \<^item> The names imported from \<open>satpy.readers.seviri_base\<close> (tables, constants and the
    calibration helpers) are not defined in this file of the source; they are the
    fields of the record \<open>seviri_base\<close>, which every modelled function takes as a
    parameter.
\<close>

subsection \<open>Errors\<close>

datatype error =
    NotImplementedError
  | KeyError
  | ValueError
  | IndexError
  | UnboundLocalError

subsection \<open>Header and trailer\<close>

record datetime =
  year :: nat
  month :: nat
  day :: nat
  hour :: nat
  minute :: nat
  second :: nat
  microsecond :: nat

record EarthModel_rec =
  TypeOfEarthModel :: int

record GeometricProcessing_rec =
  EarthModel :: EarthModel_rec

record ReferenceGrid_rec =
  GridOrigin :: int
  ColumnDirGridStep :: real
  LineDirGridStep :: real

record Level15ImageProduction_rec =
  PlannedChanProcessing :: "int list"

record ImageDescription_rec =
  ReferenceGridHRV :: ReferenceGrid_rec
  ReferenceGridVIS_IR :: ReferenceGrid_rec
  Level15ImageProduction :: Level15ImageProduction_rec

record PlannedAcquisitionTime_rec =
  TrueRepeatCycleStart :: datetime
  PlannedRepeatCycleEnd :: datetime

record ImageAcquisition_rec =
  PlannedAcquisitionTime :: PlannedAcquisitionTime_rec

record Level15ImageCalibration_rec =
  CalSlope :: "real list"
  CalOffset :: "real list"

record MPEFCalFeedback_rec =
  GSICSCalCoeff :: "real list"
  GSICSOffsetCount :: "real list"

record RadiometricProcessing_rec =
  Level15ImageCalibration :: Level15ImageCalibration_rec
  MPEFCalFeedback :: MPEFCalFeedback_rec

record DATA_HEADER_rec =
  GeometricProcessing :: GeometricProcessing_rec
  ImageDescription :: ImageDescription_rec
  ImageAcquisition :: ImageAcquisition_rec
  RadiometricProcessing :: RadiometricProcessing_rec

record SECONDARY_PRODUCT_HEADER_rec =
  SelectedBandIDs :: string
  NorthLineSelectedRectangle :: int
  EastColumnSelectedRectangle :: int
  SouthLineSelectedRectangle :: int
  WestColumnSelectedRectangle :: int

record header_rec =
  DATA_HEADER :: DATA_HEADER_rec
  SECONDARY_PRODUCT_HEADER :: SECONDARY_PRODUCT_HEADER_rec

record ActualScanningSummary_rec =
  ReducedScan :: bool

record ActualL15CoverageHRV_rec =
  LowerNorthLineActual :: int
  LowerWestColumnActual :: int
  LowerSouthLineActual :: int
  LowerEastColumnActual :: int
  UpperNorthLineActual :: int
  UpperWestColumnActual :: int
  UpperSouthLineActual :: int
  UpperEastColumnActual :: int

record ImageProductionStats_rec =
  ActualScanningSummary :: ActualScanningSummary_rec
  ActualL15CoverageHRV :: ActualL15CoverageHRV_rec

record TRAILER_rec =
  ImageProductionStats :: ImageProductionStats_rec

record trailer_rec =
  TRAILER :: TRAILER_rec

subsection \<open>The handler object\<close>

type_synonym pixel = "real option"
  \<comment> \<open>a float sample; \<open>None\<close> is NaN, the missing value\<close>

type_synonym image = "pixel list list"
  \<comment> \<open>a two-dimensional array, as the list of its rows\<close>

type_synonym byte = "8 word"

record projection_parameters_rec =
  proj_a :: real
  proj_b :: real
  proj_h :: real
  ssp_longitude :: real

record mda_rec =
  is_full_disk :: bool
  available_channels :: "string \<rightharpoonup> bool"
  channel_list :: "string list"
  platform_name :: string
  projection_parameters :: projection_parameters_rec
  number_of_lines :: nat
  number_of_columns :: nat
  hrv_number_of_lines :: nat
  hrv_number_of_columns :: nat

text \<open>
  \<open>dask_array['visir']['line_data']\<close>. The field \<open>'visir'\<close> of a scan-line record is
  declared (lines 135 to 137) as a sub-array of as many line records as the channel
  list has channels other than HRV. The array then has the axes line, channel
  position and packed bytes, unless that number is 1: a sub-array of one record is
  the record itself, and the array has the axes line and packed bytes only (the
  comment of lines 420 and 421).
\<close>

datatype visir_array =
    Lines2D "byte list list"
  | Lines3D "byte list list list"

record dask_array_rec =
  visir_line_data :: visir_array
  hrv_line_data :: "byte list list list option"
    \<comment> \<open>\<open>dask_array['hrv']['line_data']\<close>: line, one of three sub-lines, packed bytes;
        the field exists only in a file that holds the HRV channel\<close>

record handler =
  header :: header_rec
  trailer :: trailer_rec
  mda :: mda_rec
  calib_mode :: string
  platform_id :: int
  dask_array :: dask_array_rec

subsection \<open>Names imported from seviri\_base\<close>

record seviri_base =
  CHANNEL_NAMES :: "(nat \<times> string) list"
    \<comment> \<open>a dictionary from channel number to name, in insertion order\<close>
  VIS_CHANNELS :: "string list"
  VISIR_NUM_COLUMNS :: int
  VISIR_NUM_LINES :: int
  HRV_NUM_COLUMNS :: int
  CALIB_F :: "int \<Rightarrow> string \<Rightarrow> real option"
    \<comment> \<open>\<open>CALIB[platform_id][channel]["F"]\<close>, \<open>None\<close> where a key is missing\<close>
  dec10216 :: "byte list \<Rightarrow> 16 word list"
  convert_to_radiance :: "image \<Rightarrow> real \<Rightarrow> real \<Rightarrow> image"
  vis_calibrate :: "image \<Rightarrow> real \<Rightarrow> image"
  ir_calibrate :: "image \<Rightarrow> string \<Rightarrow> int \<Rightarrow> image"

subsection \<open>start\_time and end\_time\<close>

definition start_time :: "handler \<Rightarrow> datetime" where
  "start_time self =
     TrueRepeatCycleStart (PlannedAcquisitionTime (ImageAcquisition (DATA_HEADER (header self))))"

definition end_time :: "handler \<Rightarrow> datetime" where
  "end_time self =
     PlannedRepeatCycleEnd (PlannedAcquisitionTime (ImageAcquisition (DATA_HEADER (header self))))"

subsection \<open>Area extent\<close>

type_synonym extent = "real \<times> real \<times> real \<times> real"
  \<comment> \<open>the tuple \<open>(ll_c, ll_l, ur_c, ur_l)\<close>\<close>

definition calculate_area_extent ::
  "real \<Rightarrow> real \<Rightarrow> real \<Rightarrow> real \<Rightarrow> real \<Rightarrow> real \<Rightarrow> real \<Rightarrow> real \<Rightarrow> real \<Rightarrow> extent" where
  "calculate_area_extent center_point north east south west
       we_offset ns_offset column_step line_step =
     (let ll_c = (center_point - east + 0.5 + we_offset) * column_step;
          ll_l = (north - center_point + 0.5 + ns_offset) * line_step;
          ur_c = (center_point - west - 0.5 + we_offset) * column_step;
          ur_l = (south - center_point - 0.5 + ns_offset) * line_step
      in (ll_c, ll_l, ur_c, ur_l))"

datatype area_extent_result =
    Extent extent
  | Windows extent extent int int int int
    \<comment> \<open>the list \<open>[upper_area_extent, lower_area_extent, upper_nlines, upper_ncols,
        lower_nlines, lower_ncols]\<close>\<close>

text \<open>
  \<open>get_area_extent\<close>, lines 294 to 411 of the source. The local variables of the method
  that are read from the header, the trailer and the imported constants are
  definitions of their own, under the names the source gives them.
\<close>

text \<open>Lines 311 to 325: the pair \<open>(ns_offset, we_offset)\<close>, or the exception.\<close>

definition earth_model_offsets :: "int \<Rightarrow> string \<Rightarrow> error + (real \<times> real)" where
  "earth_model_offsets earth_model name =
     (if earth_model = 2 then Inr (0, 0)
      else if earth_model = 1 then
        (if name = ''HRV'' then Inr (- 1.5, 1.5) else Inr (- 0.5, 0.5))
      else Inl NotImplementedError)"

definition earth_model :: "handler \<Rightarrow> int" where
  "earth_model self =
     TypeOfEarthModel (EarthModel (GeometricProcessing (DATA_HEADER (header self))))"

text \<open>
  Lines 327 to 338: the reference grid, the center point and the scale of a channel.
  The division \<open>/\<close> is the true division of Python 3.
\<close>

definition reference_grid :: "handler \<Rightarrow> string \<Rightarrow> ReferenceGrid_rec" where
  "reference_grid self name =
     (if name = ''HRV''
      then ReferenceGridHRV (ImageDescription (DATA_HEADER (header self)))
      else ReferenceGridVIS_IR (ImageDescription (DATA_HEADER (header self))))"

definition grid_origin :: "handler \<Rightarrow> string \<Rightarrow> int" where
  "grid_origin self name = GridOrigin (reference_grid self name)"

definition center_point :: "seviri_base \<Rightarrow> string \<Rightarrow> real" where
  "center_point B name =
     (if name = ''HRV'' then (real_of_int (HRV_NUM_COLUMNS B) / 2) - 2
      else real_of_int (VISIR_NUM_COLUMNS B) / 2)"

definition coeff :: "string \<Rightarrow> int" where
  "coeff name = (if name = ''HRV'' then 3 else 1)"

definition column_step :: "handler \<Rightarrow> string \<Rightarrow> real" where
  "column_step self name = ColumnDirGridStep (reference_grid self name) * 1000.0"

definition line_step :: "handler \<Rightarrow> string \<Rightarrow> real" where
  "line_step self name = LineDirGridStep (reference_grid self name) * 1000.0"

definition origins :: "int \<rightharpoonup> string" where
  "origins = [0 \<mapsto> ''NW'', 1 \<mapsto> ''SW'', 2 \<mapsto> ''SE'', 3 \<mapsto> ''NE'']"

definition is_rapid_scan :: "handler \<Rightarrow> bool" where
  "is_rapid_scan self =
     ReducedScan (ActualScanningSummary (ImageProductionStats (TRAILER (trailer self))))"

definition HRV_bounds :: "handler \<Rightarrow> ActualL15CoverageHRV_rec" where
  "HRV_bounds self = ActualL15CoverageHRV (ImageProductionStats (TRAILER (trailer self)))"

definition sec15hd :: "handler \<Rightarrow> SECONDARY_PRODUCT_HEADER_rec" where
  "sec15hd self = SECONDARY_PRODUCT_HEADER (header self)"

text \<open>Lines 327 to 411: the method once the two offsets are known.\<close>

definition area_extent_with_offsets ::
  "seviri_base \<Rightarrow> handler \<Rightarrow> string \<Rightarrow> real \<Rightarrow> real \<Rightarrow> error + area_extent_result" where
  "area_extent_with_offsets B self name ns_offset we_offset =
     (if grid_origin self name \<noteq> 2 then
        (case origins (grid_origin self name) of
           None \<Rightarrow> Inl KeyError
         | Some corner \<Rightarrow> Inl NotImplementedError)
      else if name = ''HRV'' \<and> (is_full_disk (mda self) \<or> is_rapid_scan self) then
        (let lower_north_line = LowerNorthLineActual (HRV_bounds self);
             lower_west_column = LowerWestColumnActual (HRV_bounds self);
             lower_south_line = LowerSouthLineActual (HRV_bounds self);
             lower_east_column = LowerEastColumnActual (HRV_bounds self);
             lower_area_extent = calculate_area_extent (center_point B name)
                (real_of_int lower_north_line) (real_of_int lower_east_column)
                (real_of_int lower_south_line) (real_of_int lower_west_column)
                we_offset ns_offset (column_step self name) (line_step self name)
         in if is_rapid_scan self then Inr (Extent lower_area_extent)
            else
              (let lower_nlines = lower_north_line - lower_south_line + 1;
                   lower_ncols = lower_west_column - lower_east_column + 1;
                   upper_north_line = UpperNorthLineActual (HRV_bounds self);
                   upper_west_column = UpperWestColumnActual (HRV_bounds self);
                   upper_south_line = UpperSouthLineActual (HRV_bounds self);
                   upper_east_column = UpperEastColumnActual (HRV_bounds self);
                   upper_area_extent = calculate_area_extent (center_point B name)
                      (real_of_int upper_north_line) (real_of_int upper_east_column)
                      (real_of_int upper_south_line) (real_of_int upper_west_column)
                      we_offset ns_offset (column_step self name) (line_step self name);
                   upper_nlines = upper_north_line - upper_south_line + 1;
                   upper_ncols = upper_west_column - upper_east_column + 1
               in Inr (Windows upper_area_extent lower_area_extent
                         upper_nlines upper_ncols lower_nlines lower_ncols)))
      else
        (let north = coeff name * NorthLineSelectedRectangle (sec15hd self);
             east = coeff name * EastColumnSelectedRectangle (sec15hd self);
             west = coeff name * WestColumnSelectedRectangle (sec15hd self);
             south = coeff name * SouthLineSelectedRectangle (sec15hd self);
             area_extent = calculate_area_extent (center_point B name)
                (real_of_int north) (real_of_int east)
                (real_of_int south) (real_of_int west)
                we_offset ns_offset (column_step self name) (line_step self name)
         in Inr (Extent area_extent)))"

definition get_area_extent :: "seviri_base \<Rightarrow> handler \<Rightarrow> string \<Rightarrow> error + area_extent_result" where
  "get_area_extent B self name =
     (case earth_model_offsets (earth_model self) name of
        Inl e \<Rightarrow> Inl e
      | Inr (ns_offset, we_offset) \<Rightarrow> area_extent_with_offsets B self name ns_offset we_offset)"

subsection \<open>Available channels\<close>

text \<open>
  \<open>CHANNEL_NAMES\<close> is a dictionary: \<open>CHANNEL_NAMES[k]\<close> raises \<open>KeyError\<close> at a missing
  key, and \<open>CHANNEL_NAMES.values()\<close> lists the names in insertion order.
\<close>

definition channel_names_values :: "seviri_base \<Rightarrow> string list" where
  "channel_names_values B = map snd (CHANNEL_NAMES B)"

text \<open>
  \<open>get_available_channels\<close>, lines 516 to 525: the loop over
  \<open>zip(range(12), chlist_str)\<close>, which updates the dictionary \<open>retv\<close>.
\<close>

fun available_loop ::
  "seviri_base \<Rightarrow> (nat \<times> char) list \<Rightarrow> (string \<rightharpoonup> bool) \<Rightarrow> error + (string \<rightharpoonup> bool)" where
  "available_loop B [] retv = Inr retv"
| "available_loop B ((idx, char) # rest) retv =
     (case map_of (CHANNEL_NAMES B) (idx + 1) of
        None \<Rightarrow> Inl KeyError
      | Some name \<Rightarrow> available_loop B rest (retv(name \<mapsto> (char = CHR ''X''))))"

definition get_available_channels :: "seviri_base \<Rightarrow> header_rec \<Rightarrow> error + (string \<rightharpoonup> bool)" where
  "get_available_channels B hdr =
     (let chlist_str = SelectedBandIDs (SECONDARY_PRODUCT_HEADER hdr)
      in available_loop B (zip [0..<12] chlist_str) Map.empty)"

text \<open>
  Lines 166 to 168 of \<open>_read_header\<close>: the list comprehension
  \<open>[i for i in CHANNEL_NAMES.values() if available_channels[i]]\<close>.
\<close>

fun select_available :: "(string \<rightharpoonup> bool) \<Rightarrow> string list \<Rightarrow> error + string list" where
  "select_available avail [] = Inr []"
| "select_available avail (i # rest) =
     (case avail i of
        None \<Rightarrow> Inl KeyError
      | Some present \<Rightarrow>
          (case select_available avail rest of
             Inl e \<Rightarrow> Inl e
           | Inr chosen \<Rightarrow> Inr (if present then i # chosen else chosen)))"

definition read_header_channels ::
  "seviri_base \<Rightarrow> header_rec \<Rightarrow> error + ((string \<rightharpoonup> bool) \<times> string list)" where
  "read_header_channels B hdr =
     (case get_available_channels B hdr of
        Inl e \<Rightarrow> Inl e
      | Inr avail \<Rightarrow>
          (case select_available avail (channel_names_values B) of
             Inl e \<Rightarrow> Inl e
           | Inr chosen \<Rightarrow> Inr (avail, chosen)))"

text \<open>
  The table the reader expects: the keys 1 to 12, inserted in this order, with
  twelve different names.
\<close>

definition wf_channel_names :: "seviri_base \<Rightarrow> bool" where
  "wf_channel_names B \<longleftrightarrow>
     map fst (CHANNEL_NAMES B) = [1..<13] \<and> distinct (map snd (CHANNEL_NAMES B))"

subsection \<open>Calibration\<close>

text \<open>
  \<open>str.upper\<close> on a string of ASCII characters: the letters a to z are replaced by
  A to Z, every other character is kept.
\<close>

definition toupper :: "char \<Rightarrow> char" where
  "toupper c =
     (let n = (of_char c :: nat) in if 97 \<le> n \<and> n \<le> 122 then char_of (n - 32) else c)"

definition upper :: "string \<Rightarrow> string" where
  "upper s = map toupper s"

text \<open>\<open>list.index\<close>: the first position of a value, \<open>ValueError\<close> when it is absent.\<close>

fun index_of :: "'a list \<Rightarrow> 'a \<Rightarrow> error + nat" where
  "index_of [] x = Inl ValueError"
| "index_of (y # ys) x =
     (if y = x then Inr 0
      else (case index_of ys x of Inl e \<Rightarrow> Inl e | Inr i \<Rightarrow> Inr (Suc i)))"

text \<open>Reading position \<open>i\<close> of an array, \<open>IndexError\<close> out of range.\<close>

definition getitem :: "'a list \<Rightarrow> nat \<Rightarrow> error + 'a" where
  "getitem xs i = (if i < length xs then Inr (xs ! i) else Inl IndexError)"

text \<open>
  Lines 485 to 500 of \<open>calibrate\<close>: the pair \<open>(gain, offset)\<close> passed to
  \<open>_convert_to_radiance\<close>, for the position \<open>i\<close> of the channel.
\<close>

definition calibration_coefficients ::
  "seviri_base \<Rightarrow> handler \<Rightarrow> string \<Rightarrow> nat \<Rightarrow> error + (real \<times> real)" where
  "calibration_coefficients B self channel i =
     (if upper (calib_mode self) \<noteq> ''GSICS'' \<and> upper (calib_mode self) \<noteq> ''NOMINAL'' then
        Inl NotImplementedError
      else if upper (calib_mode self) \<noteq> ''GSICS'' \<or> channel \<in> set (VIS_CHANNELS B) then
        (let coeffs = Level15ImageCalibration (RadiometricProcessing (DATA_HEADER (header self)))
         in case getitem (CalSlope coeffs) i of
              Inl e \<Rightarrow> Inl e
            | Inr gain \<Rightarrow>
                (case getitem (CalOffset coeffs) i of
                   Inl e \<Rightarrow> Inl e
                 | Inr offset \<Rightarrow> Inr (gain, offset)))
      else
        (let coeffs = MPEFCalFeedback (RadiometricProcessing (DATA_HEADER (header self)))
         in case getitem (GSICSCalCoeff coeffs) i of
              Inl e \<Rightarrow> Inl e
            | Inr gain \<Rightarrow>
                (case getitem (GSICSOffsetCount coeffs) i of
                   Inl e \<Rightarrow> Inl e
                 | Inr offset \<Rightarrow> Inr (gain, offset * gain))))"

text \<open>
  \<open>calibrate\<close>, lines 466 to 513. The two entries of \<open>dataset_id\<close> that the method reads
  are the arguments \<open>calibration\<close> and \<open>channel\<close>. A calibration that is none of the
  four known levels reaches \<open>return res\<close> with \<open>res\<close> unbound.
\<close>

definition calibrate ::
  "seviri_base \<Rightarrow> handler \<Rightarrow> image \<Rightarrow> string \<Rightarrow> string \<Rightarrow> error + image" where
  "calibrate B self data calibration channel =
     (case index_of (channel_names_values B) channel of
        Inl e \<Rightarrow> Inl e
      | Inr i \<Rightarrow>
          if calibration = ''counts'' then Inr data
          else if calibration \<in> set [''radiance'', ''reflectance'', ''brightness_temperature''] then
            (case calibration_coefficients B self channel i of
               Inl e \<Rightarrow> Inl e
             | Inr (gain, offset) \<Rightarrow>
                 (let res = convert_to_radiance B data gain offset
                  in if calibration = ''reflectance'' then
                       (case CALIB_F B (platform_id self) channel of
                          None \<Rightarrow> Inl KeyError
                        | Some solar_irradiance \<Rightarrow> Inr (vis_calibrate B res solar_irradiance))
                     else if calibration = ''brightness_temperature'' then
                       (case getitem (PlannedChanProcessing (Level15ImageProduction
                                 (ImageDescription (DATA_HEADER (header self))))) i of
                          Inl e \<Rightarrow> Inl e
                        | Inr cal_type \<Rightarrow> Inr (ir_calibrate B res channel cal_type))
                     else Inr res))
          else Inl UnboundLocalError)"

subsection \<open>Reading a dataset\<close>

text \<open>\<open>ndarray.reshape\<close> of a flat array to two dimensions, rows first.\<close>

definition reshape :: "nat \<times> nat \<Rightarrow> 'a list \<Rightarrow> error + 'a list list" where
  "reshape shape xs =
     (case shape of (rows, cols) \<Rightarrow>
        if length xs = rows * cols
        then Inr (map (\<lambda>r. take cols (drop (r * cols) xs)) [0..<rows])
        else Inl ValueError)"

text \<open>The slice \<open>line_data[:, i, :]\<close> of an array of three axes, flattened.\<close>

definition channel_slice_flat :: "byte list list list \<Rightarrow> nat \<Rightarrow> error + byte list" where
  "channel_slice_flat line_data i =
     (if list_all (\<lambda>line. i < length line) line_data
      then Inr (concat (map (\<lambda>line. line ! i) line_data))
      else Inl IndexError)"

text \<open>
  Lines 135 and 136 of \<open>_get_data_dtype\<close>, and the shape that the declaration of line
  137 gives the array of the standard channels.
\<close>

definition number_of_visir_channels :: "mda_rec \<Rightarrow> nat" where
  "number_of_visir_channels m = length (filter (\<lambda>s. \<not> s = ''HRV'') (channel_list m))"

definition visir_layout :: "handler \<Rightarrow> bool" where
  "visir_layout self =
     (case visir_line_data (dask_array self) of
        Lines2D line_data \<Rightarrow> number_of_visir_channels (mda self) = 1
      | Lines3D line_data \<Rightarrow>
          number_of_visir_channels (mda self) \<noteq> 1
          \<and> list_all (\<lambda>line. length line = number_of_visir_channels (mda self)) line_data)"

text \<open>The whole array, flattened.\<close>

definition visir_flatten :: "visir_array \<Rightarrow> byte list" where
  "visir_flatten arr =
     (case arr of
        Lines2D line_data \<Rightarrow> concat line_data
      | Lines3D line_data \<Rightarrow> concat (map concat line_data))"

text \<open>
  The slice \<open>line_data[:, i, :]\<close> of the array of the standard channels, flattened:
  three indices are too many for an array of two axes.
\<close>

definition visir_slice_flat :: "visir_array \<Rightarrow> nat \<Rightarrow> error + byte list" where
  "visir_slice_flat arr i =
     (case arr of
        Lines2D line_data \<Rightarrow> Inl IndexError
      | Lines3D line_data \<Rightarrow> channel_slice_flat line_data i)"

text \<open>Lines 417 to 429: the unpacked samples of a standard channel.\<close>

definition visir_counts :: "seviri_base \<Rightarrow> handler \<Rightarrow> string \<Rightarrow> error + 16 word list list" where
  "visir_counts B self name =
     (let shape = (number_of_lines (mda self), number_of_columns (mda self));
          line_data = visir_line_data (dask_array self)
      in case (if length (channel_list (mda self)) = 1
               then Inr (visir_flatten line_data)
               else (case index_of (channel_list (mda self)) name of
                       Inl e \<Rightarrow> Inl e
                     | Inr i \<Rightarrow> visir_slice_flat line_data i)) of
           Inl e \<Rightarrow> Inl e
         | Inr raw \<Rightarrow> reshape shape (dec10216 B raw))"

text \<open>
  Lines 431 to 446: the unpacked samples of the HRV channel, whose three sub-lines
  are stacked line by line.
\<close>

definition hrv_counts :: "seviri_base \<Rightarrow> handler \<Rightarrow> error + 16 word list list" where
  "hrv_counts B self =
     (let shape = (hrv_number_of_lines (mda self), hrv_number_of_columns (mda self));
          shape_layer = (number_of_lines (mda self), hrv_number_of_columns (mda self))
      in case hrv_line_data (dask_array self) of
           None \<Rightarrow> Inl ValueError
         | Some line_data \<Rightarrow>
            (case channel_slice_flat line_data 2 of Inl e \<Rightarrow> Inl e | Inr raw2 \<Rightarrow>
             case channel_slice_flat line_data 1 of Inl e \<Rightarrow> Inl e | Inr raw1 \<Rightarrow>
             case channel_slice_flat line_data 0 of Inl e \<Rightarrow> Inl e | Inr raw0 \<Rightarrow>
             case reshape shape_layer (dec10216 B raw2) of Inl e \<Rightarrow> Inl e | Inr data2 \<Rightarrow>
             case reshape shape_layer (dec10216 B raw1) of Inl e \<Rightarrow> Inl e | Inr data1 \<Rightarrow>
             case reshape shape_layer (dec10216 B raw0) of Inl e \<Rightarrow> Inl e | Inr data0 \<Rightarrow>
               reshape shape
                 (concat (map (\<lambda>l. data0 ! l @ data1 ! l @ data2 ! l)
                             [0..<number_of_lines (mda self)]))))"

definition raw_counts :: "seviri_base \<Rightarrow> handler \<Rightarrow> string \<Rightarrow> error + 16 word list list" where
  "raw_counts B self name =
     (if name \<notin> set [''HRV''] then visir_counts B self name else hrv_counts B self)"

text \<open>
  Line 448: \<open>xr.DataArray(data, dims=['y', 'x']).where(data != 0).astype(np.float32)\<close>.
  A sample is kept where it is not 0 and is the missing value elsewhere; every
  16-bit sample is a float32 exactly.
\<close>

definition where_nonzero :: "16 word list list \<Rightarrow> image" where
  "where_nonzero data =
     map (map (\<lambda>v. if v \<noteq> 0 then Some (real (unat v)) else None)) data"

record dataset_info_rec =
  info_units :: string
  info_wavelength :: "real \<times> real \<times> real"
  info_standard_name :: string

record orbital_parameters_rec =
  projection_longitude :: real
  projection_latitude :: real
  projection_altitude :: real

record dataset =
  pixels :: image
  attr_units :: string
  attr_wavelength :: "real \<times> real \<times> real"
  attr_standard_name :: string
  attr_platform_name :: string
  attr_sensor :: string
  attr_orbital_parameters :: orbital_parameters_rec

text \<open>Lines 454 to 462: the attributes set on the calibrated array.\<close>

definition with_attrs :: "handler \<Rightarrow> dataset_info_rec \<Rightarrow> image \<Rightarrow> dataset" where
  "with_attrs self dataset_info res =
     \<lparr>pixels = res,
      attr_units = info_units dataset_info,
      attr_wavelength = info_wavelength dataset_info,
      attr_standard_name = info_standard_name dataset_info,
      attr_platform_name = platform_name (mda self),
      attr_sensor = ''seviri'',
      attr_orbital_parameters =
        \<lparr>projection_longitude = ssp_longitude (projection_parameters (mda self)),
         projection_latitude = 0,
         projection_altitude = proj_h (projection_parameters (mda self))\<rparr>\<rparr>"

text \<open>
  \<open>get_dataset\<close>, lines 413 to 464. The test \<open>xarr is None\<close> of the source is never
  true and has no branch here.
\<close>

definition get_dataset ::
  "seviri_base \<Rightarrow> handler \<Rightarrow> string \<Rightarrow> string \<Rightarrow> dataset_info_rec \<Rightarrow> error + dataset" where
  "get_dataset B self name calibration dataset_info =
     (if name \<notin> set (channel_list (mda self)) then Inl KeyError
      else case raw_counts B self name of
             Inl e \<Rightarrow> Inl e
           | Inr data \<Rightarrow>
               (let xarr = where_nonzero data
                in case calibrate B self xarr calibration name of
                     Inl e \<Rightarrow> Inl e
                   | Inr res \<Rightarrow> Inr (with_attrs self dataset_info res)))"

subsection \<open>An instance of the parameters and a sample file\<close>

text \<open>
  The definitions of this subsection are not part of the reader: they give the record
  \<open>seviri_base\<close> and a handler concrete values, at which the theorems below are
  evaluated.
\<close>

text \<open>
  Modelled from the spec: \<open>dec10216\<close>, whose code is in \<open>seviri_base\<close>. Every group of
  five bytes holds four samples of ten bits, most significant bit first.
\<close>

fun dec10216_spec :: "byte list \<Rightarrow> 16 word list" where
  "dec10216_spec (b0 # b1 # b2 # b3 # b4 # rest) =
     [ push_bit 2 (ucast b0) OR drop_bit 6 (ucast b1),
       push_bit 4 (ucast b1 AND 63) OR drop_bit 4 (ucast b2),
       push_bit 6 (ucast b2 AND 15) OR drop_bit 2 (ucast b3),
       push_bit 8 (ucast b3 AND 3) OR ucast b4 ] @ dec10216_spec rest"
| "dec10216_spec _ = []"

text \<open>
  Modelled from the spec: \<open>_convert_to_radiance\<close>, whose code is in \<open>seviri_base\<close>:
  radiance = counts \<times> gain + offset, a missing value staying missing.
\<close>

definition convert_to_radiance_spec :: "image \<Rightarrow> real \<Rightarrow> real \<Rightarrow> image" where
  "convert_to_radiance_spec data gain offset =
     map (map (map_option (\<lambda>counts. counts * gain + offset))) data"

text \<open>
  The channel table, the visible channels and the grid sizes of the SEVIRI instrument.
  The two last calibration steps are outside the reader; the instance takes a
  scaling by the solar irradiance and the identity in their place.
\<close>

definition sample_base :: seviri_base where
  "sample_base =
     \<lparr>CHANNEL_NAMES =
        [(1, ''VIS006''), (2, ''VIS008''), (3, ''IR_016''), (4, ''IR_039''),
         (5, ''WV_062''), (6, ''WV_073''), (7, ''IR_087''), (8, ''IR_097''),
         (9, ''IR_108''), (10, ''IR_120''), (11, ''IR_134''), (12, ''HRV'')],
      VIS_CHANNELS = [''HRV'', ''VIS006'', ''VIS008'', ''IR_016''],
      VISIR_NUM_COLUMNS = 3712,
      VISIR_NUM_LINES = 3712,
      HRV_NUM_COLUMNS = 11136,
      CALIB_F = (\<lambda>platform channel.
         if platform = 324 \<and> channel \<in> set [''HRV'', ''VIS006'', ''VIS008'', ''IR_016'']
         then Some 20 else None),
      dec10216 = dec10216_spec,
      convert_to_radiance = convert_to_radiance_spec,
      vis_calibrate = (\<lambda>data solar_irradiance.
         map (map (map_option (\<lambda>x. x * 100 / solar_irradiance))) data),
      ir_calibrate = (\<lambda>data channel cal_type. data)\<rparr>"

text \<open>
  A small region-of-interest file: two scan lines of four columns, with the channels
  VIS006, VIS008, IR\_108 and HRV. The earth model, the grid origin, the two flags
  that select the branch of the HRV extent and the calibration mode are parameters
  of the sample.
\<close>

definition sample_header :: "int \<Rightarrow> int \<Rightarrow> header_rec" where
  "sample_header model origin =
     \<lparr>DATA_HEADER =
        \<lparr>GeometricProcessing = \<lparr>EarthModel = \<lparr>TypeOfEarthModel = model\<rparr>\<rparr>,
         ImageDescription =
           \<lparr>ReferenceGridHRV =
              \<lparr>GridOrigin = origin, ColumnDirGridStep = 1, LineDirGridStep = 1\<rparr>,
            ReferenceGridVIS_IR =
              \<lparr>GridOrigin = origin, ColumnDirGridStep = 3, LineDirGridStep = 3\<rparr>,
            Level15ImageProduction =
              \<lparr>PlannedChanProcessing = [0, 0, 0, 2, 2, 2, 2, 2, 2, 2, 2, 0]\<rparr>\<rparr>,
         ImageAcquisition =
           \<lparr>PlannedAcquisitionTime =
              \<lparr>TrueRepeatCycleStart =
                 \<lparr>year = 2019, month = 1, day = 1, hour = 12, minute = 0, second = 9,
                  microsecond = 0\<rparr>,
               PlannedRepeatCycleEnd =
                 \<lparr>year = 2019, month = 1, day = 1, hour = 12, minute = 15, second = 0,
                  microsecond = 0\<rparr>\<rparr>\<rparr>,
         RadiometricProcessing =
           \<lparr>Level15ImageCalibration =
              \<lparr>CalSlope = [2, 3, 2, 1, 1, 1, 1, 1, 4, 1, 1, 3],
               CalOffset = [- 1, - 1, - 1, - 1, - 1, - 1, - 1, - 1, - 2, - 1, - 1, - 1]\<rparr>,
            MPEFCalFeedback =
              \<lparr>GSICSCalCoeff = [0, 0, 0, 5, 5, 5, 5, 5, 6, 5, 5, 0],
               GSICSOffsetCount = [0, 0, 0, - 50, - 50, - 50, - 50, - 50, - 51, - 50, - 50, 0]\<rparr>\<rparr>\<rparr>,
      SECONDARY_PRODUCT_HEADER =
        \<lparr>SelectedBandIDs = ''XX______X__X'',
         NorthLineSelectedRectangle = 2,
         EastColumnSelectedRectangle = 1,
         SouthLineSelectedRectangle = 1,
         WestColumnSelectedRectangle = 4\<rparr>\<rparr>"

definition sample_trailer :: "bool \<Rightarrow> trailer_rec" where
  "sample_trailer reduced =
     \<lparr>TRAILER =
        \<lparr>ImageProductionStats =
           \<lparr>ActualScanningSummary = \<lparr>ReducedScan = reduced\<rparr>,
            ActualL15CoverageHRV =
              \<lparr>LowerNorthLineActual = 8064, LowerWestColumnActual = 7631,
               LowerSouthLineActual = 1, LowerEastColumnActual = 2064,
               UpperNorthLineActual = 11136, UpperWestColumnActual = 8203,
               UpperSouthLineActual = 8065, UpperEastColumnActual = 2636\<rparr>\<rparr>\<rparr>\<rparr>"

definition sample_mda :: "bool \<Rightarrow> mda_rec" where
  "sample_mda full_disk =
     \<lparr>is_full_disk = full_disk,
      available_channels = map_of
        [(''VIS006'', True), (''VIS008'', True), (''IR_016'', False), (''IR_039'', False),
         (''WV_062'', False), (''WV_073'', False), (''IR_087'', False), (''IR_097'', False),
         (''IR_108'', True), (''IR_120'', False), (''IR_134'', False), (''HRV'', True)],
      channel_list = [''VIS006'', ''VIS008'', ''IR_108'', ''HRV''],
      platform_name = ''Meteosat-11'',
      projection_parameters =
        \<lparr>proj_a = 6378169, proj_b = 6356583.8, proj_h = 35785831, ssp_longitude = 0\<rparr>,
      number_of_lines = 2,
      number_of_columns = 4,
      hrv_number_of_lines = 6,
      hrv_number_of_columns = 4\<rparr>"

text \<open>
  Per scan line, three standard channels of five packed bytes (four samples) and the
  three HRV sub-lines of five packed bytes.
\<close>

definition sample_dask_array :: dask_array_rec where
  "sample_dask_array =
     \<lparr>visir_line_data = Lines3D
        [[[0, 0, 0, 0, 0], [0, 64, 32, 12, 4], [255, 255, 255, 255, 255]],
         [[0, 64, 0, 0, 7], [1, 0, 0, 0, 0], [128, 0, 0, 0, 1]]],
      hrv_line_data = Some
        [[[0, 0, 0, 0, 1], [0, 0, 0, 0, 2], [0, 0, 0, 0, 3]],
         [[0, 0, 0, 0, 4], [0, 0, 0, 0, 0], [0, 0, 0, 0, 6]]]\<rparr>"

definition sample_handler :: "int \<Rightarrow> int \<Rightarrow> bool \<Rightarrow> bool \<Rightarrow> string \<Rightarrow> handler" where
  "sample_handler model origin full_disk reduced mode =
     \<lparr>header = sample_header model origin,
      trailer = sample_trailer reduced,
      mda = sample_mda full_disk,
      calib_mode = mode,
      platform_id = 324,
      dask_array = sample_dask_array\<rparr>"

definition sample_info :: dataset_info_rec where
  "sample_info =
     \<lparr>info_units = ''1'', info_wavelength = (0.56, 0.635, 0.71),
      info_standard_name = ''counts''\<rparr>"

section \<open>Verified properties\<close>

subsection \<open>Area extent\<close>

lemmas sample_defs = sample_handler_def sample_header_def sample_trailer_def sample_mda_def
  sample_base_def sample_dask_array_def

lemmas area_defs = earth_model_def grid_origin_def reference_grid_def center_point_def
  coeff_def column_step_def line_step_def is_rapid_scan_def HRV_bounds_def sec15hd_def

text \<open>
  C1. Every invocation of \<open>_calculate_area_extent\<close> returns the four coordinates of the
  extent formula. A request that passes the earth-model and grid-origin checks
  returns, in each branch, extents that are this formula at the center point and the
  grid steps (in meters) of the channel: at the bounds of the selected rectangle for
  a standard channel, at three times these bounds for the HRV channel of a region of
  interest, and at the trailer's actual bounds for each HRV window.
\<close>

theorem area_extent_formula_in_every_branch:
  assumes "earth_model_offsets (earth_model self) name = Inr (ns_offset, we_offset)"
      and "grid_origin self name = 2"
  shows "calculate_area_extent c north east south west we_off ns_off col_step row_step =
           ((c - east + 0.5 + we_off) * col_step,
            (north - c + 0.5 + ns_off) * row_step,
            (c - west - 0.5 + we_off) * col_step,
            (south - c - 0.5 + ns_off) * row_step)
       \<and> (let c = center_point B name;
               col_step = column_step self name;
               row_step = line_step self name;
               formula = (\<lambda>north east south west.
                  ((c - real_of_int east + 0.5 + we_offset) * col_step,
                   (real_of_int north - c + 0.5 + ns_offset) * row_step,
                   (c - real_of_int west - 0.5 + we_offset) * col_step,
                   (real_of_int south - c - 0.5 + ns_offset) * row_step));
               tr = HRV_bounds self;
               hd = sec15hd self
           in get_area_extent B self name =
                Inr (if name = ''HRV'' \<and> (is_full_disk (mda self) \<or> is_rapid_scan self) then
                       if is_rapid_scan self then
                         Extent (formula (LowerNorthLineActual tr) (LowerEastColumnActual tr)
                                         (LowerSouthLineActual tr) (LowerWestColumnActual tr))
                       else
                         Windows
                           (formula (UpperNorthLineActual tr) (UpperEastColumnActual tr)
                                    (UpperSouthLineActual tr) (UpperWestColumnActual tr))
                           (formula (LowerNorthLineActual tr) (LowerEastColumnActual tr)
                                    (LowerSouthLineActual tr) (LowerWestColumnActual tr))
                           (UpperNorthLineActual tr - UpperSouthLineActual tr + 1)
                           (UpperWestColumnActual tr - UpperEastColumnActual tr + 1)
                           (LowerNorthLineActual tr - LowerSouthLineActual tr + 1)
                           (LowerWestColumnActual tr - LowerEastColumnActual tr + 1)
                     else
                       Extent (formula (coeff name * NorthLineSelectedRectangle hd)
                                       (coeff name * EastColumnSelectedRectangle hd)
                                       (coeff name * SouthLineSelectedRectangle hd)
                                       (coeff name * WestColumnSelectedRectangle hd))))"
proof -
  have formula: "\<And>c n e s w wo no cs rs.
      calculate_area_extent c n e s w wo no cs rs =
        ((c - e + 0.5 + wo) * cs, (n - c + 0.5 + no) * rs,
         (c - w - 0.5 + wo) * cs, (s - c - 0.5 + no) * rs)"
    by (simp add: calculate_area_extent_def)
  have "get_area_extent B self name = area_extent_with_offsets B self name ns_offset we_offset"
    using assms(1) by (simp add: get_area_extent_def)
  then show ?thesis
    using assms(2) by (simp add: area_extent_with_offsets_def formula Let_def)
qed

theorem area_extent_formula_in_every_branch_witness:
  "earth_model_offsets (earth_model (sample_handler 1 2 True False ''nominal'')) ''HRV'' = Inr (- 1.5, 1.5)
   \<and> grid_origin (sample_handler 1 2 True False ''nominal'') ''HRV'' = 2
   \<and> get_area_extent sample_base (sample_handler 1 2 True False ''nominal'') ''HRV'' =
       Inr (Windows (2932000, 5569000, - 2636000, 2497000)
                    (3504000, 2497000, - 2064000, - 5567000) 3072 5568 8064 5568)"
proof -
  have h1: "earth_model_offsets (earth_model (sample_handler 1 2 True False ''nominal'')) ''HRV''
              = Inr (- 1.5, 1.5)"
    by (simp add: earth_model_offsets_def earth_model_def sample_defs)
  have h2: "grid_origin (sample_handler 1 2 True False ''nominal'') ''HRV'' = 2"
    by (simp add: grid_origin_def reference_grid_def sample_defs)
  show ?thesis
    using area_extent_formula_in_every_branch [OF h1 h2, of 0 0 0 0 0 0 0 0 0 sample_base] h1 h2
    by (simp add: area_defs sample_defs Let_def)
qed

text \<open>
  C2. With earth model 2 both offsets are 0 for every channel; with earth model 1 the
  north-south offset is -0.5 and the west-east offset is 0.5 for a standard channel,
  and they are -1.5 and 1.5 for the HRV channel; the request then goes on with these
  offsets. With any other earth model the request raises \<open>NotImplementedError\<close>.
\<close>

theorem earth_model_offset_correction:
  "(earth_model self = 2 \<longrightarrow>
      earth_model_offsets (earth_model self) name = Inr (0, 0)
      \<and> get_area_extent B self name = area_extent_with_offsets B self name 0 0)
   \<and> (earth_model self = 1 \<and> name \<noteq> ''HRV'' \<longrightarrow>
      earth_model_offsets (earth_model self) name = Inr (- 0.5, 0.5)
      \<and> get_area_extent B self name = area_extent_with_offsets B self name (- 0.5) 0.5)
   \<and> (earth_model self = 1 \<and> name = ''HRV'' \<longrightarrow>
      earth_model_offsets (earth_model self) name = Inr (- 1.5, 1.5)
      \<and> get_area_extent B self name = area_extent_with_offsets B self name (- 1.5) 1.5)
   \<and> (earth_model self \<noteq> 2 \<and> earth_model self \<noteq> 1 \<longrightarrow>
      get_area_extent B self name = Inl NotImplementedError)"
  by (simp add: get_area_extent_def earth_model_offsets_def)

theorem earth_model_offset_correction_witness:
  "(earth_model (sample_handler 2 2 False False ''nominal'') = 2
      \<and> get_area_extent sample_base (sample_handler 2 2 False False ''nominal'') ''HRV'' =
          Inr (Extent (5563500, - 5559500, 5553500, - 5563500)))
   \<and> (earth_model (sample_handler 1 2 False False ''nominal'') = 1 \<and> ''VIS006'' \<noteq> ''HRV''
      \<and> get_area_extent sample_base (sample_handler 1 2 False False ''nominal'') ''VIS006'' =
          Inr (Extent (5568000, - 5562000, 5556000, - 5568000)))
   \<and> (earth_model (sample_handler 1 2 False False ''nominal'') = 1
      \<and> get_area_extent sample_base (sample_handler 1 2 False False ''nominal'') ''HRV'' =
          Inr (Extent (5565000, - 5561000, 5555000, - 5565000)))
   \<and> (earth_model (sample_handler 3 2 False False ''nominal'') \<noteq> 2
      \<and> earth_model (sample_handler 3 2 False False ''nominal'') \<noteq> 1
      \<and> get_area_extent sample_base (sample_handler 3 2 False False ''nominal'') ''VIS006'' =
          Inl NotImplementedError)"
  using earth_model_offset_correction [of "sample_handler 2 2 False False ''nominal''" "''HRV''" sample_base]
        earth_model_offset_correction [of "sample_handler 1 2 False False ''nominal''" "''VIS006''" sample_base]
        earth_model_offset_correction [of "sample_handler 1 2 False False ''nominal''" "''HRV''" sample_base]
        earth_model_offset_correction [of "sample_handler 3 2 False False ''nominal''" "''VIS006''" sample_base]
  by (simp add: area_defs sample_defs area_extent_with_offsets_def calculate_area_extent_def Let_def)

text \<open>
  A grid origin other than 2 ends the request: with \<open>NotImplementedError\<close> when the
  origin is a key of the dictionary \<open>origins\<close>, with the \<open>KeyError\<close> of the lookup
  \<open>origins[grid_origin]\<close> when it is not.
\<close>

lemma unsupported_grid_origin:
  assumes "earth_model self = 1 \<or> earth_model self = 2"
      and "grid_origin self name \<noteq> 2"
  shows "get_area_extent B self name =
           (if grid_origin self name \<in> {0, 1, 3} then Inl NotImplementedError else Inl KeyError)"
proof -
  have "earth_model_offsets (earth_model self) name \<noteq> Inl e" for e
    using assms(1) by (auto simp: earth_model_offsets_def)
  then obtain p where "earth_model_offsets (earth_model self) name = Inr p"
    by (cases "earth_model_offsets (earth_model self) name") auto
  then obtain ns we where "earth_model_offsets (earth_model self) name = Inr (ns, we)"
    by (cases p) auto
  then have "get_area_extent B self name = area_extent_with_offsets B self name ns we"
    by (simp add: get_area_extent_def)
  then show ?thesis
    using assms(2) by (simp add: area_extent_with_offsets_def origins_def)
qed

text \<open>
  C5. At the grid origin 4, which is not a key of \<open>origins\<close>, the request for a standard
  channel and the request for the HRV channel of the sample file raise \<open>KeyError\<close>,
  not the \<open>NotImplementedError\<close> that the branch for a grid origin other than 2 is
  written to raise; at the grid origin 0 the request raises \<open>NotImplementedError\<close>.
\<close>

theorem grid_origin_outside_table_raises_KeyError:
  "get_area_extent sample_base (sample_handler 2 4 False False ''nominal'') ''VIS006'' = Inl KeyError
   \<and> get_area_extent sample_base (sample_handler 2 4 False False ''nominal'') ''HRV'' = Inl KeyError
   \<and> get_area_extent sample_base (sample_handler 2 0 False False ''nominal'') ''VIS006'' =
       Inl NotImplementedError"
  by (simp add: get_area_extent_def earth_model_offsets_def area_extent_with_offsets_def
        origins_def area_defs sample_defs)

text \<open>
  C6. In a file whose trailer has \<open>ReducedScan\<close> set, a request for the HRV channel
  never returns the two-window list, and a request that passes the earth-model and
  grid-origin checks returns the single extent of the lower window, computed from
  the trailer's actual lower-window bounds.
\<close>

theorem rapid_scan_single_lower_extent:
  assumes "is_rapid_scan self"
  shows "get_area_extent B self ''HRV'' \<noteq> Inr (Windows upper_extent lower_extent upper_nlines upper_ncols lower_nlines lower_ncols)
       \<and> (earth_model_offsets (earth_model self) ''HRV'' = Inr (ns_offset, we_offset)
            \<and> grid_origin self ''HRV'' = 2 \<longrightarrow>
          get_area_extent B self ''HRV'' =
            Inr (Extent (calculate_area_extent (center_point B ''HRV'')
                   (real_of_int (LowerNorthLineActual (HRV_bounds self)))
                   (real_of_int (LowerEastColumnActual (HRV_bounds self)))
                   (real_of_int (LowerSouthLineActual (HRV_bounds self)))
                   (real_of_int (LowerWestColumnActual (HRV_bounds self)))
                   we_offset ns_offset (column_step self ''HRV'') (line_step self ''HRV''))))"
  using assms
  by (auto simp: get_area_extent_def area_extent_with_offsets_def Let_def
           split: sum.splits option.splits)

theorem rapid_scan_single_lower_extent_witness:
  "is_rapid_scan (sample_handler 2 2 False True ''nominal'')
   \<and> earth_model_offsets (earth_model (sample_handler 2 2 False True ''nominal'')) ''HRV'' = Inr (0, 0)
   \<and> grid_origin (sample_handler 2 2 False True ''nominal'') ''HRV'' = 2
   \<and> get_area_extent sample_base (sample_handler 2 2 False True ''nominal'') ''HRV'' =
       Inr (Extent (3502500, 2498500, - 2065500, - 5565500))"
proof -
  have r: "is_rapid_scan (sample_handler 2 2 False True ''nominal'')"
    by (simp add: is_rapid_scan_def sample_defs)
  show ?thesis
    using rapid_scan_single_lower_extent [OF r, of sample_base _ _ _ _ _ _ 0 0] r
    by (simp add: earth_model_offsets_def calculate_area_extent_def area_defs sample_defs)
qed

text \<open>
  C8, as amended. With earth model 2, positive steps and a rectangle with
  north > south and west > east of \<open>rows\<close> lines and \<open>columns\<close> columns, the extent has
  \<open>ur_col - ll_col = - (columns * col_step)\<close> and \<open>ur_row - ll_row = - (rows * row_step)\<close>,
  and both differences are negative: the lower-left corner carries the larger
  coordinates, since lines and columns are counted from the south-east corner.
\<close>

theorem extent_span_earth_model_2:
  assumes "earth_model_offsets 2 name = Inr (ns_offset, we_offset)"
      and "calculate_area_extent c (real_of_int north) (real_of_int east)
             (real_of_int south) (real_of_int west) we_offset ns_offset col_step row_step
           = (ll_col, ll_row, ur_col, ur_row)"
      and "south < north" and "east < west" and "0 < col_step" and "0 < row_step"
      and "columns = west - east + 1" and "rows = north - south + 1"
  shows "ur_col - ll_col = - (real_of_int columns * col_step) \<and> ur_col - ll_col < 0
       \<and> ur_row - ll_row = - (real_of_int rows * row_step) \<and> ur_row - ll_row < 0"
proof -
  have z: "ns_offset = 0" "we_offset = 0"
    using assms(1) by (simp_all add: earth_model_offsets_def)
  have ll: "ll_col = (c - real_of_int east + 0.5) * col_step"
            "ll_row = (real_of_int north - c + 0.5) * row_step"
    and ur: "ur_col = (c - real_of_int west - 0.5) * col_step"
            "ur_row = (real_of_int south - c - 0.5) * row_step"
    using assms(2) by (simp_all add: calculate_area_extent_def z)
  have cols: "real_of_int columns = real_of_int west - real_of_int east + 1"
    using assms(7) by simp
  have rws: "real_of_int rows = real_of_int north - real_of_int south + 1"
    using assms(8) by simp
  have c: "ur_col - ll_col = - (real_of_int columns * col_step)"
    unfolding ll ur cols by (simp add: algebra_simps)
  have r: "ur_row - ll_row = - (real_of_int rows * row_step)"
    unfolding ll ur rws by (simp add: algebra_simps)
  have "0 < real_of_int columns" "0 < real_of_int rows"
    using assms(3,4,7,8) by simp_all
  then have "0 < real_of_int columns * col_step" "0 < real_of_int rows * row_step"
    using assms(5,6) by simp_all
  with c r show ?thesis by simp
qed

theorem extent_span_earth_model_2_witness:
  "earth_model_offsets 2 ''VIS006'' = Inr (0, 0)
   \<and> calculate_area_extent 1856 (real_of_int 3712) (real_of_int 1) (real_of_int 1)
        (real_of_int 3712) 0 0 3000 3000
      = (5566500, 5569500, - 5569500, - 5566500)
   \<and> (1::int) < 3712 \<and> (0::real) < 3000
   \<and> (- 5569500) - (5566500::real) = - (real_of_int 3712 * 3000)
   \<and> (- 5569500) - (5566500::real) < 0
   \<and> (- 5566500) - (5569500::real) = - (real_of_int 3712 * 3000)
   \<and> (- 5566500) - (5569500::real) < 0"
proof -
  have o: "earth_model_offsets 2 ''VIS006'' = Inr (0, 0)"
    by (simp add: earth_model_offsets_def)
  have e: "calculate_area_extent 1856 (real_of_int 3712) (real_of_int 1) (real_of_int 1)
        (real_of_int 3712) 0 0 3000 3000 = (5566500, 5569500, - 5569500, - 5566500)"
    by (simp add: calculate_area_extent_def)
  show ?thesis
    using extent_span_earth_model_2 [OF o e, of 3712 3712] o e by simp
qed

text \<open>
  C8, as stated, fails on the full-disk rectangle (north 3712, east 1, south 1,
  west 3712) with center 1856 and steps of 3000 m: both differences are -11136000,
  which is neither positive nor equal to 3712 * 3000.
\<close>

theorem extent_span_positive_counterexample:
  "earth_model_offsets 2 ''VIS006'' = Inr (0, 0)
   \<and> (1::int) < 3712 \<and> (0::real) < 3000
   \<and> calculate_area_extent 1856 (real_of_int 3712) (real_of_int 1) (real_of_int 1)
        (real_of_int 3712) 0 0 3000 3000
      = (5566500, 5569500, - 5569500, - 5566500)
   \<and> \<not> (0 < (- 5569500) - (5566500::real))
   \<and> (- 5569500) - (5566500::real) \<noteq> real_of_int (3712 - 1 + 1) * 3000
   \<and> \<not> (0 < (- 5566500) - (5569500::real))
   \<and> (- 5566500) - (5569500::real) \<noteq> real_of_int (3712 - 1 + 1) * 3000"
  by (simp add: earth_model_offsets_def calculate_area_extent_def)

subsection \<open>Calibration\<close>

text \<open>
  Two mode strings match without regard to case when \<open>upper\<close> maps them to the same
  string; \<open>upper\<close> of the two known modes gives the constants of the source.
\<close>

lemma upper_gsics: "upper ''gsics'' = ''GSICS''"
  by code_simp

lemma upper_nominal: "upper ''nominal'' = ''NOMINAL''"
  by code_simp

lemma index_of_nth:
  "distinct xs \<Longrightarrow> i < length xs \<Longrightarrow> index_of xs (xs ! i) = Inr i"
proof (induction xs arbitrary: i)
  case Nil
  then show ?case by simp
next
  case (Cons y ys)
  show ?case
  proof (cases i)
    case 0
    then show ?thesis by simp
  next
    case (Suc j)
    with Cons.prems have "ys ! j \<in> set ys" "y \<notin> set ys" "j < length ys" "distinct ys"
      by auto
    with Cons.IH [of j] Suc show ?thesis by auto
  qed
qed

lemma index_of_member:
  "x \<in> set xs \<Longrightarrow> \<exists>i. index_of xs x = Inr i"
  by (induction xs) (auto split: sum.splits)

lemma index_of_position:
  "index_of xs x = Inr i \<Longrightarrow> i < length xs \<and> xs ! i = x"
  by (induction xs arbitrary: i) (auto split: if_splits sum.splits)

lemma wf_channel_lookup:
  assumes "wf_channel_names B"
  shows "map_of (CHANNEL_NAMES B) (Suc i) = Some channel
           \<longleftrightarrow> i < 12 \<and> channel_names_values B ! i = channel"
proof -
  let ?t = "CHANNEL_NAMES B"
  have keys: "map fst ?t = [1..<13]" and dist: "distinct (map snd ?t)"
    using assms by (simp_all add: wf_channel_names_def)
  have len: "length ?t = 12"
  proof -
    have "length (map fst ?t) = length [1..<13::nat]" using keys by simp
    then show ?thesis by simp
  qed
  have dk: "distinct (map fst ?t)" using keys by simp
  have fst_nth: "fst (?t ! j) = Suc j" if "j < 12" for j
  proof -
    have "map fst ?t ! j = [1..<13] ! j" using keys by simp
    then show ?thesis using that len by (simp add: nth_map)
  qed
  show ?thesis
  proof
    assume "map_of ?t (Suc i) = Some channel"
    then have "(Suc i, channel) \<in> set ?t" by (rule map_of_SomeD)
    then obtain j where j: "j < length ?t" "?t ! j = (Suc i, channel)"
      by (auto simp: in_set_conv_nth)
    then have "Suc j = Suc i" using fst_nth [of j] len by simp
    then show "i < 12 \<and> channel_names_values B ! i = channel"
      using j len by (simp add: channel_names_values_def)
  next
    assume a: "i < 12 \<and> channel_names_values B ! i = channel"
    from a have i12: "i < length ?t" using len by simp
    have "map snd ?t ! i = snd (?t ! i)"
      using i12 by (rule nth_map)
    then have "snd (?t ! i) = channel"
      using a by (simp add: channel_names_values_def)
    then have "?t ! i = (Suc i, channel)"
      using fst_nth [of i] a by (simp add: prod_eq_iff)
    then have "(Suc i, channel) \<in> set ?t"
      using a len by (metis nth_mem)
    then show "map_of ?t (Suc i) = Some channel"
      using dk by simp
  qed
qed


lemma wf_index_of:
  assumes "wf_channel_names B" and "map_of (CHANNEL_NAMES B) (Suc i) = Some channel"
  shows "index_of (channel_names_values B) channel = Inr i \<and> i < 12"
proof -
  have p: "i < 12" "channel_names_values B ! i = channel"
    using wf_channel_lookup [OF assms(1), of i channel] assms(2) by simp_all
  have "length (map fst (CHANNEL_NAMES B)) = length [1..<13::nat]"
    using assms(1) by (simp add: wf_channel_names_def)
  then have len: "length (channel_names_values B) = 12"
    by (simp add: channel_names_values_def)
  have "distinct (channel_names_values B)"
    using assms(1) by (simp add: wf_channel_names_def channel_names_values_def)
  then have "index_of (channel_names_values B) (channel_names_values B ! i) = Inr i"
    using p(1) len by (intro index_of_nth) simp_all
  then show ?thesis using p by simp
qed

lemma wf_sample_base: "wf_channel_names sample_base"
  unfolding wf_channel_names_def sample_base_def by code_simp

text \<open>
  C3. Let \<open>channel\<close> be the entry \<open>i + 1\<close> of the twelve-entry channel table, in a
  header with twelve coefficients per array, and let the calibration be above the
  counts level. Then the index computed by \<open>calibrate\<close> is \<open>i\<close>, with either mode.
  With the mode \<open>gsics\<close> (in any case) and a channel outside \<open>VIS_CHANNELS\<close> the
  coefficients are \<open>GSICSCalCoeff[i]\<close> and \<open>GSICSOffsetCount[i] * GSICSCalCoeff[i]\<close>;
  for a visible channel, and with the mode \<open>nominal\<close>, they are \<open>CalSlope[i]\<close> and
  \<open>CalOffset[i]\<close>. The result is computed from the radiance at these coefficients and
  does not depend on \<open>self.mda\<close>, which holds the channels present in the file.
\<close>

theorem calibration_coefficient_selection:
  assumes wf: "wf_channel_names B"
      and ch: "map_of (CHANNEL_NAMES B) (Suc i) = Some channel"
      and lvl: "calibration \<in> {''radiance'', ''reflectance'', ''brightness_temperature''}"
      and mode: "upper (calib_mode self) = upper ''gsics''
                 \<or> upper (calib_mode self) = upper ''nominal''"
      and len1: "length (CalSlope (Level15ImageCalibration
                   (RadiometricProcessing (DATA_HEADER (header self))))) = 12"
      and len2: "length (CalOffset (Level15ImageCalibration
                   (RadiometricProcessing (DATA_HEADER (header self))))) = 12"
      and len3: "length (GSICSCalCoeff (MPEFCalFeedback
                   (RadiometricProcessing (DATA_HEADER (header self))))) = 12"
      and len4: "length (GSICSOffsetCount (MPEFCalFeedback
                   (RadiometricProcessing (DATA_HEADER (header self))))) = 12"
  shows "let nominal = Level15ImageCalibration (RadiometricProcessing (DATA_HEADER (header self)));
             feedback = MPEFCalFeedback (RadiometricProcessing (DATA_HEADER (header self)));
             coefficients =
               (if upper (calib_mode self) = upper ''gsics'' \<and> channel \<notin> set (VIS_CHANNELS B)
                then (GSICSCalCoeff feedback ! i,
                      GSICSOffsetCount feedback ! i * GSICSCalCoeff feedback ! i)
                else (CalSlope nominal ! i, CalOffset nominal ! i));
             radiance = convert_to_radiance B data (fst coefficients) (snd coefficients)
         in index_of (channel_names_values B) channel = Inr i \<and> i < 12
          \<and> calibration_coefficients B self channel i = Inr coefficients
          \<and> calibrate B self data calibration channel =
              (if calibration = ''reflectance'' then
                 (case CALIB_F B (platform_id self) channel of
                    None \<Rightarrow> Inl KeyError
                  | Some solar_irradiance \<Rightarrow> Inr (vis_calibrate B radiance solar_irradiance))
               else if calibration = ''brightness_temperature'' then
                 (case getitem (PlannedChanProcessing (Level15ImageProduction
                           (ImageDescription (DATA_HEADER (header self))))) i of
                    Inl e \<Rightarrow> Inl e
                  | Inr cal_type \<Rightarrow> Inr (ir_calibrate B radiance channel cal_type))
               else Inr radiance)
          \<and> calibrate B (self\<lparr>mda := m\<rparr>) data calibration channel =
              calibrate B self data calibration channel"
proof -
  have idx: "index_of (channel_names_values B) channel = Inr i" and i12: "i < 12"
    using wf_index_of [OF wf ch] by simp_all
  have up: "upper ''gsics'' = ''GSICS''" "upper ''nominal'' = ''NOMINAL''"
    by (rule upper_gsics, rule upper_nominal)
  define coefficients where "coefficients =
      (if upper (calib_mode self) = upper ''gsics'' \<and> channel \<notin> set (VIS_CHANNELS B)
       then (GSICSCalCoeff (MPEFCalFeedback (RadiometricProcessing (DATA_HEADER (header self)))) ! i,
             GSICSOffsetCount (MPEFCalFeedback (RadiometricProcessing (DATA_HEADER (header self)))) ! i
             * GSICSCalCoeff (MPEFCalFeedback (RadiometricProcessing (DATA_HEADER (header self)))) ! i)
       else (CalSlope (Level15ImageCalibration (RadiometricProcessing (DATA_HEADER (header self)))) ! i,
             CalOffset (Level15ImageCalibration (RadiometricProcessing (DATA_HEADER (header self)))) ! i))"
  have coeffs: "calibration_coefficients B self channel i = Inr coefficients"
    unfolding coefficients_def
    using mode i12 len1 len2 len3 len4
    by (auto simp: calibration_coefficients_def getitem_def up Let_def)
  have same: "calibration_coefficients B (self\<lparr>mda := m\<rparr>) channel j =
              calibration_coefficients B self channel j" for j
    by (simp add: calibration_coefficients_def)
  have indep: "calibrate B (self\<lparr>mda := m\<rparr>) data calibration channel =
               calibrate B self data calibration channel"
    by (simp add: calibrate_def same cong: sum.case_cong if_cong)
  have cal: "calibrate B self data calibration channel =
      (if calibration = ''reflectance'' then
         (case CALIB_F B (platform_id self) channel of
            None \<Rightarrow> Inl KeyError
          | Some solar_irradiance \<Rightarrow>
              Inr (vis_calibrate B
                     (convert_to_radiance B data (fst coefficients) (snd coefficients))
                     solar_irradiance))
       else if calibration = ''brightness_temperature'' then
         (case getitem (PlannedChanProcessing (Level15ImageProduction
                   (ImageDescription (DATA_HEADER (header self))))) i of
            Inl e \<Rightarrow> Inl e
          | Inr cal_type \<Rightarrow>
              Inr (ir_calibrate B
                     (convert_to_radiance B data (fst coefficients) (snd coefficients))
                     channel cal_type))
       else Inr (convert_to_radiance B data (fst coefficients) (snd coefficients)))"
    using lvl by (auto simp: calibrate_def idx coeffs Let_def case_prod_beta)
  show ?thesis
    unfolding Let_def coefficients_def [symmetric]
    using idx i12 coeffs indep cal by simp
qed

theorem calibration_coefficient_selection_witness:
  "wf_channel_names sample_base
   \<and> map_of (CHANNEL_NAMES sample_base) (Suc 8) = Some ''IR_108''
   \<and> map_of (CHANNEL_NAMES sample_base) (Suc 0) = Some ''VIS006''
   \<and> upper (calib_mode (sample_handler 2 2 False False ''GsIcs'')) = upper ''gsics''
   \<and> index_of (channel_names_values sample_base) ''IR_108'' = Inr 8
   \<and> calibration_coefficients sample_base (sample_handler 2 2 False False ''GsIcs'') ''IR_108'' 8
        = Inr (6, - 306)
   \<and> calibrate sample_base (sample_handler 2 2 False False ''GsIcs'') [[Some 1, None]]
        ''radiance'' ''IR_108'' = Inr [[Some (- 300), None]]
   \<and> calibration_coefficients sample_base (sample_handler 2 2 False False ''GsIcs'') ''VIS006'' 0
        = Inr (2, - 1)
   \<and> calibrate sample_base (sample_handler 2 2 False False ''GsIcs'') [[Some 1, None]]
        ''reflectance'' ''VIS006'' = Inr [[Some 5, None]]"
proof -
  let ?h = "sample_handler 2 2 False False ''GsIcs''"
  have ch8: "map_of (CHANNEL_NAMES sample_base) (Suc 8) = Some ''IR_108''"
    by (simp add: sample_base_def)
  have ch0: "map_of (CHANNEL_NAMES sample_base) (Suc 0) = Some ''VIS006''"
    by (simp add: sample_base_def)
  have lv: "''radiance'' \<in> {''radiance'', ''reflectance'', ''brightness_temperature''}"
           "''reflectance'' \<in> {''radiance'', ''reflectance'', ''brightness_temperature''}"
    by simp_all
  have md: "upper (calib_mode ?h) = upper ''gsics''"
    unfolding sample_handler_def by code_simp
  have len: "length (CalSlope (Level15ImageCalibration
                   (RadiometricProcessing (DATA_HEADER (header ?h))))) = 12"
            "length (CalOffset (Level15ImageCalibration
                   (RadiometricProcessing (DATA_HEADER (header ?h))))) = 12"
            "length (GSICSCalCoeff (MPEFCalFeedback
                   (RadiometricProcessing (DATA_HEADER (header ?h))))) = 12"
            "length (GSICSOffsetCount (MPEFCalFeedback
                   (RadiometricProcessing (DATA_HEADER (header ?h))))) = 12"
    by (simp_all add: sample_handler_def sample_header_def)
  note a = calibration_coefficient_selection
             [OF wf_sample_base ch8 lv(1) disjI1 [OF md] len, of "[[Some 1, None]]" "sample_mda True"]
  note b = calibration_coefficient_selection
             [OF wf_sample_base ch0 lv(2) disjI1 [OF md] len, of "[[Some 1, None]]" "sample_mda True"]
  have vis: "''VIS006'' \<in> set (VIS_CHANNELS sample_base)"
            "''IR_108'' \<notin> set (VIS_CHANNELS sample_base)"
    by (simp_all add: sample_base_def)
  have vals: "GSICSCalCoeff (MPEFCalFeedback (RadiometricProcessing (DATA_HEADER (header ?h)))) ! 8 = 6"
             "GSICSOffsetCount (MPEFCalFeedback (RadiometricProcessing (DATA_HEADER (header ?h)))) ! 8 = - 51"
             "CalSlope (Level15ImageCalibration (RadiometricProcessing (DATA_HEADER (header ?h)))) ! 0 = 2"
             "CalOffset (Level15ImageCalibration (RadiometricProcessing (DATA_HEADER (header ?h)))) ! 0 = - 1"
    by (simp_all add: sample_handler_def sample_header_def)
  have ext: "convert_to_radiance sample_base = convert_to_radiance_spec"
            "CALIB_F sample_base (platform_id ?h) ''VIS006'' = Some 20"
            "vis_calibrate sample_base [[Some 1, None]] 20 = [[Some 5, None]]"
    by (simp_all add: sample_base_def sample_handler_def)
  show ?thesis
    using a b wf_sample_base ch8 ch0 md
    by (simp add: Let_def vis vals ext convert_to_radiance_spec_def md)
qed

text \<open>
  C7, as amended. With a mode that is neither \<open>gsics\<close> nor \<open>nominal\<close> (in any case)
  and a channel of the channel table, a request at the level radiance, reflectance
  or brightness temperature raises \<open>NotImplementedError\<close>, and a request at the counts
  level returns its data unchanged.
\<close>

theorem unknown_calibration_mode:
  assumes "upper (calib_mode self) \<noteq> upper ''gsics''"
      and "upper (calib_mode self) \<noteq> upper ''nominal''"
      and "channel \<in> set (channel_names_values B)"
  shows "(calibration \<in> {''radiance'', ''reflectance'', ''brightness_temperature''} \<longrightarrow>
            calibrate B self data calibration channel = Inl NotImplementedError)
       \<and> calibrate B self data ''counts'' channel = Inr data"
proof -
  obtain i where idx: "index_of (channel_names_values B) channel = Inr i"
    using index_of_member [OF assms(3)] by blast
  have "calibration_coefficients B self channel i = Inl NotImplementedError"
    using assms(1,2) by (simp add: calibration_coefficients_def upper_gsics upper_nominal)
  then show ?thesis
    by (auto simp: calibrate_def idx)
qed

theorem unknown_calibration_mode_witness:
  "upper (calib_mode (sample_handler 2 2 False False ''bogus'')) \<noteq> upper ''gsics''
   \<and> upper (calib_mode (sample_handler 2 2 False False ''bogus'')) \<noteq> upper ''nominal''
   \<and> ''IR_108'' \<in> set (channel_names_values sample_base)
   \<and> calibrate sample_base (sample_handler 2 2 False False ''bogus'') [[Some 5, None]]
        ''brightness_temperature'' ''IR_108'' = Inl NotImplementedError
   \<and> calibrate sample_base (sample_handler 2 2 False False ''bogus'') [[Some 5, None]]
        ''counts'' ''IR_108'' = Inr [[Some 5, None]]"
proof -
  let ?h = "sample_handler 2 2 False False ''bogus''"
  have m1: "upper (calib_mode ?h) \<noteq> upper ''gsics''"
    unfolding sample_handler_def by code_simp
  have m2: "upper (calib_mode ?h) \<noteq> upper ''nominal''"
    unfolding sample_handler_def by code_simp
  have c: "''IR_108'' \<in> set (channel_names_values sample_base)"
    by (simp add: channel_names_values_def sample_base_def)
  show ?thesis
    using unknown_calibration_mode [OF m1 m2 c, of "''brightness_temperature''" "[[Some 5, None]]"]
          m1 m2 c
    by simp
qed

text \<open>
  C7, as stated, fails at the counts level: with the mode \<open>bogus\<close> the request returns
  the data and raises nothing.
\<close>

theorem counts_ignores_calibration_mode_counterexample:
  "upper (calib_mode (sample_handler 2 2 False False ''bogus'')) \<noteq> upper ''gsics''
   \<and> upper (calib_mode (sample_handler 2 2 False False ''bogus'')) \<noteq> upper ''nominal''
   \<and> calibrate sample_base (sample_handler 2 2 False False ''bogus'') [[Some 5, None]]
        ''counts'' ''VIS006'' = Inr [[Some 5, None]]
   \<and> calibrate sample_base (sample_handler 2 2 False False ''bogus'') [[Some 5, None]]
        ''counts'' ''VIS006'' \<noteq> Inl NotImplementedError"
proof -
  let ?h = "sample_handler 2 2 False False ''bogus''"
  have m1: "upper (calib_mode ?h) \<noteq> upper ''gsics''"
    unfolding sample_handler_def by code_simp
  have m2: "upper (calib_mode ?h) \<noteq> upper ''nominal''"
    unfolding sample_handler_def by code_simp
  have "calibrate sample_base ?h [[Some 5, None]] ''counts'' ''VIS006'' = Inr [[Some 5, None]]"
    by (simp add: calibrate_def channel_names_values_def sample_base_def)
  with m1 m2 show ?thesis by simp
qed


subsection \<open>Available channels\<close>

text \<open>
  The loop of \<open>get_available_channels\<close> is a fold of dictionary updates; with twelve
  different names, the entry of a name is set by its own position only.
\<close>

lemma wf_length_names:
  assumes "wf_channel_names B"
  shows "length (channel_names_values B) = 12"
proof -
  have "length (map fst (CHANNEL_NAMES B)) = length [1..<13::nat]"
    using assms by (simp add: wf_channel_names_def)
  then show ?thesis by (simp add: channel_names_values_def)
qed

lemma wf_distinct_names:
  "wf_channel_names B \<Longrightarrow> distinct (channel_names_values B)"
  by (simp add: wf_channel_names_def channel_names_values_def)

lemma available_loop_fold:
  assumes "wf_channel_names B" and "\<forall>p \<in> set ps. fst p < 12"
  shows "available_loop B ps retv =
           Inr (fold (\<lambda>p m. m(channel_names_values B ! fst p \<mapsto> (snd p = CHR ''X''))) ps retv)"
proof -
  define mark where
    "mark = (\<lambda>(p :: nat \<times> char) (m :: string \<rightharpoonup> bool).
               m(channel_names_values B ! fst p \<mapsto> (snd p = CHR ''X'')))"
  have "available_loop B ps retv = Inr (fold mark ps retv)"
    using assms(2)
  proof (induction ps arbitrary: retv)
    case Nil
    then show ?case by simp
  next
    case (Cons p ps)
    obtain idx c where p: "p = (idx, c)" by (cases p)
    with Cons.prems have "idx < 12" by simp
    then have look: "map_of (CHANNEL_NAMES B) (Suc idx) = Some (channel_names_values B ! idx)"
      using wf_channel_lookup [OF assms(1), of idx "channel_names_values B ! idx"] by simp
    have rest: "\<forall>q \<in> set ps. fst q < 12" using Cons.prems by simp
    have "available_loop B (p # ps) retv =
            available_loop B ps (retv(channel_names_values B ! idx \<mapsto> (c = CHR ''X'')))"
      using p look by simp
    also have "\<dots> = Inr (fold mark ps (retv(channel_names_values B ! idx \<mapsto> (c = CHR ''X''))))"
      by (rule Cons.IH [OF rest])
    also have "retv(channel_names_values B ! idx \<mapsto> (c = CHR ''X'')) = mark p retv"
      using p by (simp add: mark_def)
    finally show ?case by simp
  qed
  then show ?thesis by (simp add: mark_def)
qed

lemma fold_update_hit:
  assumes "distinct (map (\<lambda>p. f (fst p)) ps)" and "(idx, c) \<in> set ps"
  shows "fold (\<lambda>p m. m(f (fst p) \<mapsto> g (snd p))) ps retv (f idx) = Some (g c)"
proof -
  define mark where "mark = (\<lambda>p m. m(f (fst p) \<mapsto> g (snd p)))"
  have mark_apply: "mark p m x = (if x = f (fst p) then Some (g (snd p)) else m x)" for p m x
    by (simp add: mark_def)
  have other: "fold mark qs m x = m x" if "x \<notin> (\<lambda>p. f (fst p)) ` set qs" for qs m x
    using that
  proof (induction qs arbitrary: m)
    case Nil
    then show ?case by simp
  next
    case (Cons q qs)
    then have "x \<noteq> f (fst q)" "x \<notin> (\<lambda>p. f (fst p)) ` set qs" by auto
    with Cons.IH [of "mark q m"] show ?case by (simp add: mark_apply)
  qed
  have "fold mark ps retv (f idx) = Some (g c)"
    using assms
  proof (induction ps arbitrary: retv)
    case Nil
    then show ?case by simp
  next
    case (Cons p ps)
    show ?case
    proof (cases "(idx, c) \<in> set ps")
      case True
      with Cons.prems have "distinct (map (\<lambda>p. f (fst p)) ps)" by simp
      from Cons.IH [OF this True, of "mark p retv"] show ?thesis by simp
    next
      case False
      with Cons.prems(2) have p: "p = (idx, c)" by simp
      from Cons.prems(1) have "f (fst p) \<notin> (\<lambda>p. f (fst p)) ` set ps" by simp
      with p have "f idx \<notin> (\<lambda>p. f (fst p)) ` set ps" by simp
      then have "fold mark ps (mark p retv) (f idx) = mark p retv (f idx)"
        by (rule other)
      moreover have "mark p retv (f idx) = Some (g c)"
        using p by (simp add: mark_apply)
      ultimately show ?thesis by simp
    qed
  qed
  then show ?thesis by (simp add: mark_def)
qed

lemma select_available_filter:
  "\<forall>n \<in> set xs. avail n \<noteq> None \<Longrightarrow>
     select_available avail xs = Inr (filter (\<lambda>n. avail n = Some True) xs)"
  by (induction xs) auto

lemma length_filter_positions:
  "length (filter (\<lambda>i. xs ! i = a) [0..<length xs]) = count_list xs a"
proof -
  have "count_list ys a = length (filter (\<lambda>y. y = a) ys)" for ys :: "'a list"
    by (induction ys) auto
  then have "count_list xs a = length (filter (\<lambda>y. y = a) (map ((!) xs) [0..<length xs]))"
    by (simp add: map_nth)
  also have "\<dots> = length (filter (\<lambda>i. xs ! i = a) [0..<length xs])"
    by (simp add: filter_map comp_def)
  finally show ?thesis by simp
qed

text \<open>
  C4. With the twelve-entry channel table and a selection string of twelve
  characters, \<open>get_available_channels\<close> and the channel list of \<open>_read_header\<close> return:
  the channel \<open>i + 1\<close> of the table is marked available exactly when the character at
  position \<open>i\<close> is \<open>X\<close>; the channel list is the names of the marked positions in the
  order of the table; and its length is the number of \<open>X\<close> in the string.
\<close>

theorem available_channels_from_bitstring:
  assumes wf: "wf_channel_names B"
      and len: "length (SelectedBandIDs (SECONDARY_PRODUCT_HEADER hdr)) = 12"
  shows "\<exists>avail chosen.
           read_header_channels B hdr = Inr (avail, chosen)
         \<and> (\<forall>i name. map_of (CHANNEL_NAMES B) (Suc i) = Some name \<longrightarrow>
               avail name = Some (SelectedBandIDs (SECONDARY_PRODUCT_HEADER hdr) ! i = CHR ''X''))
         \<and> chosen = map ((!) (channel_names_values B))
                      (filter (\<lambda>i. SelectedBandIDs (SECONDARY_PRODUCT_HEADER hdr) ! i = CHR ''X'')
                         [0..<12])
         \<and> length chosen = count_list (SelectedBandIDs (SECONDARY_PRODUCT_HEADER hdr)) (CHR ''X'')"
proof -
  let ?bits = "SelectedBandIDs (SECONDARY_PRODUCT_HEADER hdr)"
  let ?names = "channel_names_values B"
  let ?ps = "zip [0..<12] ?bits"
  let ?avail = "fold (\<lambda>p m. m(?names ! fst p \<mapsto> (snd p = CHR ''X''))) ?ps Map.empty"
  let ?chosen = "map ((!) ?names) (filter (\<lambda>i. ?bits ! i = CHR ''X'') [0..<12])"
  have n12: "length ?names = 12" by (rule wf_length_names [OF wf])
  have dn: "distinct ?names" by (rule wf_distinct_names [OF wf])
  have "\<forall>p \<in> set ?ps. fst p < 12"
    by (auto dest: set_zip_leftD)
  then have av: "get_available_channels B hdr = Inr ?avail"
    by (simp add: get_available_channels_def available_loop_fold [OF wf])
  have "map (\<lambda>p. ?names ! fst p) ?ps = map ((!) ?names) (map fst ?ps)"
    by simp
  also have "map fst ?ps = [0..<12]" using len by simp
  also have "map ((!) ?names) [0..<12] = ?names" using n12 map_nth [of ?names] by simp
  finally have dps: "distinct (map (\<lambda>p. ?names ! fst p) ?ps)" using dn by simp
  have hit: "?avail (?names ! i) = Some (?bits ! i = CHR ''X'')" if "i < 12" for i
  proof -
    have "i < length ?ps" using that len by simp
    then have "?ps ! i \<in> set ?ps" by (rule nth_mem)
    moreover have "?ps ! i = (i, ?bits ! i)" using that len by simp
    ultimately have "(i, ?bits ! i) \<in> set ?ps" by simp
    from fold_update_hit [OF dps this, of "\<lambda>c. c = CHR ''X''"] show ?thesis by simp
  qed
  have marks: "?avail name = Some (?bits ! i = CHR ''X'')"
    if "map_of (CHANNEL_NAMES B) (Suc i) = Some name" for i name
    using wf_channel_lookup [OF wf, of i name] that hit [of i] by auto
  have "\<forall>n \<in> set ?names. ?avail n \<noteq> None"
  proof
    fix n assume "n \<in> set ?names"
    then obtain i where "i < 12" "?names ! i = n"
      using n12 by (auto simp: in_set_conv_nth)
    then show "?avail n \<noteq> None" using hit [of i] by auto
  qed
  then have sel: "select_available ?avail ?names = Inr (filter (\<lambda>n. ?avail n = Some True) ?names)"
    by (rule select_available_filter)
  have "filter (\<lambda>n. ?avail n = Some True) ?names
          = filter (\<lambda>n. ?avail n = Some True) (map ((!) ?names) [0..<12])"
    using n12 map_nth [of ?names] by simp
  also have "\<dots> = map ((!) ?names) (filter (\<lambda>i. ?avail (?names ! i) = Some True) [0..<12])"
    by (simp add: filter_map comp_def)
  also have "filter (\<lambda>i. ?avail (?names ! i) = Some True) [0..<12]
               = filter (\<lambda>i. ?bits ! i = CHR ''X'') [0..<12]"
    by (rule filter_cong) (auto simp: hit)
  finally have ch: "filter (\<lambda>n. ?avail n = Some True) ?names = ?chosen" .
  have rd: "read_header_channels B hdr = Inr (?avail, ?chosen)"
    by (simp add: read_header_channels_def av sel ch)
  have cnt: "length ?chosen = count_list ?bits (CHR ''X'')"
    using length_filter_positions [of ?bits "CHR ''X''"] len by simp
  show ?thesis
    using rd marks cnt by blast
qed

theorem available_channels_from_bitstring_witness:
  "wf_channel_names sample_base
   \<and> length (SelectedBandIDs (SECONDARY_PRODUCT_HEADER (sample_header 2 2))) = 12
   \<and> (\<exists>avail. read_header_channels sample_base (sample_header 2 2)
                  = Inr (avail, [''VIS006'', ''VIS008'', ''IR_108'', ''HRV''])
              \<and> avail ''IR_108'' = Some True \<and> avail ''IR_016'' = Some False)
   \<and> count_list (SelectedBandIDs (SECONDARY_PRODUCT_HEADER (sample_header 2 2))) (CHR ''X'') = 4"
proof -
  let ?bits = "SelectedBandIDs (SECONDARY_PRODUCT_HEADER (sample_header 2 2))"
  have len: "length ?bits = 12"
    by (simp add: sample_header_def)
  have bits: "?bits = ''XX______X__X''"
    by (simp add: sample_header_def)
  obtain avail chosen where
        rd: "read_header_channels sample_base (sample_header 2 2) = Inr (avail, chosen)"
    and marks: "\<And>i name. map_of (CHANNEL_NAMES sample_base) (Suc i) = Some name \<Longrightarrow>
                  avail name = Some (?bits ! i = CHR ''X'')"
    and ch: "chosen = map ((!) (channel_names_values sample_base))
                        (filter (\<lambda>i. ?bits ! i = CHR ''X'') [0..<12])"
    using available_channels_from_bitstring [OF wf_sample_base len] by blast
  have "map ((!) (channel_names_values sample_base))
          (filter (\<lambda>i. ''XX______X__X'' ! i = CHR ''X'') [0..<12])
        = [''VIS006'', ''VIS008'', ''IR_108'', ''HRV'']"
    unfolding channel_names_values_def sample_base_def by code_simp
  then have chosen: "chosen = [''VIS006'', ''VIS008'', ''IR_108'', ''HRV'']"
    using ch bits by simp
  have a8: "avail ''IR_108'' = Some True"
    using marks [of 8 "''IR_108''"] by (simp add: sample_base_def bits)
  have a2: "avail ''IR_016'' = Some False"
    using marks [of 2 "''IR_016''"] by (simp add: sample_base_def bits)
  have cnt: "count_list ?bits (CHR ''X'') = 4"
    by (simp add: bits)
  show ?thesis
    using wf_sample_base len rd chosen a8 a2 cnt by blast
qed


subsection \<open>Reading a dataset\<close>

lemma select_available_subset:
  "select_available avail xs = Inr chosen \<Longrightarrow> set chosen \<subseteq> set xs"
proof (induction xs arbitrary: chosen)
  case Nil
  then show ?case by simp
next
  case (Cons x xs)
  then show ?case
    by (auto split: option.splits sum.splits if_splits)
qed

lemma where_nonzero_pixel:
  assumes "r < length data" and "c < length (data ! r)"
  shows "where_nonzero data ! r ! c =
           (if data ! r ! c = 0 then None else Some (real (unat (data ! r ! c))))"
  using assms by (simp add: where_nonzero_def)

lemma where_nonzero_row:
  "r < length data \<Longrightarrow> length (where_nonzero data ! r) = length (data ! r)"
  by (simp add: where_nonzero_def)

lemma get_dataset_calibrates_masked:
  assumes "name \<in> set (channel_list (mda self))"
      and "raw_counts B self name = Inr data"
  shows "get_dataset B self name calibration dataset_info =
           (case calibrate B self (where_nonzero data) calibration name of
              Inl e \<Rightarrow> Inl e
            | Inr res \<Rightarrow> Inr (with_attrs self dataset_info res))"
  using assms by (simp add: get_dataset_def)

lemma calibrate_counts:
  assumes "index_of (channel_names_values B) name = Inr i"
  shows "calibrate B self data ''counts'' name = Inr data"
  using assms by (simp add: calibrate_def)

lemma pixels_with_attrs: "pixels (with_attrs self dataset_info res) = res"
  by (simp add: with_attrs_def)

text \<open>
  A file with one standard channel beside the HRV channel: the array of the standard
  channels has no channel axis, the channel list has two entries, and the request
  for the standard channel raises \<open>IndexError\<close> at the slice \<open>[:, i, :]\<close>.
\<close>

lemma one_standard_channel_beside_hrv:
  assumes layout: "visir_layout self"
      and chl: "channel_list (mda self) = [name, ''HRV'']"
      and std: "name \<noteq> ''HRV''"
  shows "get_dataset B self name calibration dataset_info = Inl IndexError"
proof -
  have "number_of_visir_channels (mda self) = 1"
    using chl std by (simp add: number_of_visir_channels_def)
  then obtain line_data where arr: "visir_line_data (dask_array self) = Lines2D line_data"
    using layout by (cases "visir_line_data (dask_array self)") (auto simp: visir_layout_def)
  have "visir_counts B self name = Inl IndexError"
    by (simp add: visir_counts_def chl arr visir_slice_flat_def)
  then have "raw_counts B self name = Inl IndexError"
    using std by (simp add: raw_counts_def)
  then show ?thesis
    by (simp add: get_dataset_def chl)
qed

text \<open>
  C10. For a channel of the channel list whose samples unpack to the array \<open>data\<close>,
  \<open>get_dataset\<close> passes to \<open>calibrate\<close>, at every calibration level, the array in which
  every sample equal to 0 is the missing value and every other sample is kept; an
  error of \<open>calibrate\<close> is the error of the request, and the pixels of the dataset
  returned are the array that \<open>calibrate\<close> returns. When the channel list is the one
  \<open>_read_header\<close> builds, the request at the counts level returns a dataset whose
  pixels are this masked array: the sample where it is not 0, the missing value
  where it is 0.
\<close>

theorem zero_counts_masked_before_calibration:
  assumes avail: "name \<in> set (channel_list (mda self))"
      and raw: "raw_counts B self name = Inr data"
  shows "get_dataset B self name calibration dataset_info =
           (case calibrate B self (where_nonzero data) calibration name of
              Inl e \<Rightarrow> Inl e
            | Inr res \<Rightarrow> Inr (with_attrs self dataset_info res))
       \<and> (calibrate B self (where_nonzero data) calibration name = Inr res \<longrightarrow>
            (\<exists>ds. get_dataset B self name calibration dataset_info = Inr ds \<and> pixels ds = res))
       \<and> length (where_nonzero data) = length data
       \<and> (\<forall>r < length data.
             length (where_nonzero data ! r) = length (data ! r)
           \<and> (\<forall>c < length (data ! r).
                 where_nonzero data ! r ! c =
                   (if data ! r ! c = 0 then None else Some (real (unat (data ! r ! c))))))
       \<and> (select_available (available_channels (mda self)) (channel_names_values B)
             = Inr (channel_list (mda self)) \<longrightarrow>
           get_dataset B self name ''counts'' dataset_info =
             Inr (with_attrs self dataset_info (where_nonzero data))
           \<and> (\<exists>ds. get_dataset B self name ''counts'' dataset_info = Inr ds
                  \<and> length (pixels ds) = length data
                  \<and> (\<forall>r < length data.
                        length (pixels ds ! r) = length (data ! r)
                      \<and> (\<forall>c < length (data ! r).
                            pixels ds ! r ! c =
                              (if data ! r ! c = 0 then None
                               else Some (real (unat (data ! r ! c))))))))"
proof -
  have gd: "get_dataset B self name lvl dataset_info =
           (case calibrate B self (where_nonzero data) lvl name of
              Inl e \<Rightarrow> Inl e
            | Inr res \<Rightarrow> Inr (with_attrs self dataset_info res))" for lvl
    by (rule get_dataset_calibrates_masked [OF avail raw])
  have returned: "\<exists>ds. get_dataset B self name calibration dataset_info = Inr ds \<and> pixels ds = res"
    if c: "calibrate B self (where_nonzero data) calibration name = Inr res"
  proof -
    have "get_dataset B self name calibration dataset_info =
            Inr (with_attrs self dataset_info res)"
      unfolding gd c by simp
    then show ?thesis
      using pixels_with_attrs [of self dataset_info res] by (intro exI conjI)
  qed
  have shape: "length (where_nonzero data) = length data"
    by (simp add: where_nonzero_def)
  have px: "\<forall>r < length data.
             length (where_nonzero data ! r) = length (data ! r)
           \<and> (\<forall>c < length (data ! r).
                 where_nonzero data ! r ! c =
                   (if data ! r ! c = 0 then None else Some (real (unat (data ! r ! c)))))"
  proof (intro allI impI conjI)
    fix r assume "r < length data"
    then show "length (where_nonzero data ! r) = length (data ! r)"
      by (rule where_nonzero_row)
  next
    fix r c assume "r < length data" "c < length (data ! r)"
    then show "where_nonzero data ! r ! c =
                 (if data ! r ! c = 0 then None else Some (real (unat (data ! r ! c))))"
      by (rule where_nonzero_pixel)
  qed
  have counts: "get_dataset B self name ''counts'' dataset_info =
             Inr (with_attrs self dataset_info (where_nonzero data))"
    if sel: "select_available (available_channels (mda self)) (channel_names_values B)
             = Inr (channel_list (mda self))"
  proof -
    have "set (channel_list (mda self)) \<subseteq> set (channel_names_values B)"
      using sel by (rule select_available_subset)
    then have "name \<in> set (channel_names_values B)"
      using avail by (rule subsetD)
    then have "\<exists>i. index_of (channel_names_values B) name = Inr i"
      by (rule index_of_member)
    then obtain i where "index_of (channel_names_values B) name = Inr i" ..
    then have c: "calibrate B self (where_nonzero data) ''counts'' name = Inr (where_nonzero data)"
      by (rule calibrate_counts)
    show ?thesis
      unfolding gd c by simp
  qed
  have counts_pixels: "\<exists>ds. get_dataset B self name ''counts'' dataset_info = Inr ds
                  \<and> length (pixels ds) = length data
                  \<and> (\<forall>r < length data.
                        length (pixels ds ! r) = length (data ! r)
                      \<and> (\<forall>c < length (data ! r).
                            pixels ds ! r ! c =
                              (if data ! r ! c = 0 then None
                               else Some (real (unat (data ! r ! c))))))"
    if sel: "select_available (available_channels (mda self)) (channel_names_values B)
             = Inr (channel_list (mda self))"
  proof (intro exI conjI)
    show "get_dataset B self name ''counts'' dataset_info =
            Inr (with_attrs self dataset_info (where_nonzero data))"
      by (rule counts [OF sel])
    show "length (pixels (with_attrs self dataset_info (where_nonzero data))) = length data"
      unfolding pixels_with_attrs by (rule shape)
    show "\<forall>r < length data.
            length (pixels (with_attrs self dataset_info (where_nonzero data)) ! r)
              = length (data ! r)
          \<and> (\<forall>c < length (data ! r).
                pixels (with_attrs self dataset_info (where_nonzero data)) ! r ! c =
                  (if data ! r ! c = 0 then None else Some (real (unat (data ! r ! c)))))"
      unfolding pixels_with_attrs by (rule px)
  qed
  show ?thesis
  proof (intro conjI impI)
    show "get_dataset B self name calibration dataset_info =
           (case calibrate B self (where_nonzero data) calibration name of
              Inl e \<Rightarrow> Inl e
            | Inr res \<Rightarrow> Inr (with_attrs self dataset_info res))"
      by (rule gd)
  next
    assume "calibrate B self (where_nonzero data) calibration name = Inr res"
    then show "\<exists>ds. get_dataset B self name calibration dataset_info = Inr ds \<and> pixels ds = res"
      by (rule returned)
  next
    show "length (where_nonzero data) = length data" by (rule shape)
  next
    show "\<forall>r < length data.
             length (where_nonzero data ! r) = length (data ! r)
           \<and> (\<forall>c < length (data ! r).
                 where_nonzero data ! r ! c =
                   (if data ! r ! c = 0 then None else Some (real (unat (data ! r ! c)))))"
      by (rule px)
  next
    assume "select_available (available_channels (mda self)) (channel_names_values B)
              = Inr (channel_list (mda self))"
    then show "get_dataset B self name ''counts'' dataset_info =
                 Inr (with_attrs self dataset_info (where_nonzero data))"
      by (rule counts)
  next
    assume "select_available (available_channels (mda self)) (channel_names_values B)
              = Inr (channel_list (mda self))"
    then show "\<exists>ds. get_dataset B self name ''counts'' dataset_info = Inr ds
                  \<and> length (pixels ds) = length data
                  \<and> (\<forall>r < length data.
                        length (pixels ds ! r) = length (data ! r)
                      \<and> (\<forall>c < length (data ! r).
                            pixels ds ! r ! c =
                              (if data ! r ! c = 0 then None
                               else Some (real (unat (data ! r ! c))))))"
      by (rule counts_pixels)
  qed
qed

theorem zero_counts_masked_before_calibration_witness:
  "''VIS008'' \<in> set (channel_list (mda (sample_handler 2 2 False False ''nominal'')))
   \<and> raw_counts sample_base (sample_handler 2 2 False False ''nominal'') ''VIS008''
        = Inr [[1, 2, 3, 4], [4, 0, 0, 0]]
   \<and> select_available (available_channels (mda (sample_handler 2 2 False False ''nominal'')))
        (channel_names_values sample_base)
        = Inr (channel_list (mda (sample_handler 2 2 False False ''nominal'')))
   \<and> calibrate sample_base (sample_handler 2 2 False False ''nominal'')
        (where_nonzero [[1, 2, 3, 4], [4, 0, 0, 0]]) ''radiance'' ''VIS008''
        = Inr [[Some 2, Some 5, Some 8, Some 11], [Some 11, None, None, None]]
   \<and> (\<exists>ds. get_dataset sample_base (sample_handler 2 2 False False ''nominal'') ''VIS008''
               ''counts'' sample_info = Inr ds
           \<and> pixels ds = [[Some 1, Some 2, Some 3, Some 4], [Some 4, None, None, None]]
           \<and> attr_units ds = ''1'' \<and> attr_sensor ds = ''seviri'')
   \<and> (\<exists>ds. get_dataset sample_base (sample_handler 2 2 False False ''nominal'') ''VIS008''
               ''radiance'' sample_info = Inr ds
           \<and> pixels ds = [[Some 2, Some 5, Some 8, Some 11], [Some 11, None, None, None]])"
proof -
  let ?h = "sample_handler 2 2 False False ''nominal''"
  have a: "''VIS008'' \<in> set (channel_list (mda ?h))"
    by (simp add: sample_handler_def sample_mda_def)
  have r: "raw_counts sample_base ?h ''VIS008'' = Inr [[1, 2, 3, 4], [4, 0, 0, 0]]"
    by (simp add: raw_counts_def visir_counts_def visir_slice_flat_def channel_slice_flat_def
          reshape_def sample_handler_def sample_mda_def sample_dask_array_def sample_base_def
          upt_rec)
  have s: "select_available (available_channels (mda ?h)) (channel_names_values sample_base)
             = Inr (channel_list (mda ?h))"
    by (simp add: sample_handler_def sample_mda_def channel_names_values_def sample_base_def)
  have w: "where_nonzero [[1, 2, 3, 4], [4, 0, 0, 0]] =
             [[Some 1, Some 2, Some 3, Some 4], [Some 4, None, None, None]]"
    by (simp add: where_nonzero_def)
  have rad: "calibrate sample_base ?h [[Some 1, Some 2, Some 3, Some 4], [Some 4, None, None, None]]
               ''radiance'' ''VIS008''
             = Inr [[Some 2, Some 5, Some 8, Some 11], [Some 11, None, None, None]]"
    by (simp add: calibrate_def calibration_coefficients_def getitem_def channel_names_values_def
          upper_nominal sample_handler_def sample_header_def sample_base_def
          convert_to_radiance_spec_def Let_def)
  have rad': "calibrate sample_base ?h (where_nonzero [[1, 2, 3, 4], [4, 0, 0, 0]])
               ''radiance'' ''VIS008''
             = Inr [[Some 2, Some 5, Some 8, Some 11], [Some 11, None, None, None]]"
    unfolding w by (rule rad)
  note t = zero_counts_masked_before_calibration
             [OF a r, of "''radiance''" sample_info
                "[[Some 2, Some 5, Some 8, Some 11], [Some 11, None, None, None]]"]
  from t rad' have g1: "\<exists>ds. get_dataset sample_base ?h ''VIS008'' ''radiance'' sample_info = Inr ds
           \<and> pixels ds = [[Some 2, Some 5, Some 8, Some 11], [Some 11, None, None, None]]"
    by blast
  from t s have g2: "get_dataset sample_base ?h ''VIS008'' ''counts'' sample_info =
             Inr (with_attrs ?h sample_info (where_nonzero [[1, 2, 3, 4], [4, 0, 0, 0]]))"
    by blast
  have at: "pixels (with_attrs ?h sample_info (where_nonzero [[1, 2, 3, 4], [4, 0, 0, 0]]))
              = [[Some 1, Some 2, Some 3, Some 4], [Some 4, None, None, None]]"
           "attr_units (with_attrs ?h sample_info (where_nonzero [[1, 2, 3, 4], [4, 0, 0, 0]]))
              = ''1''"
           "attr_sensor (with_attrs ?h sample_info (where_nonzero [[1, 2, 3, 4], [4, 0, 0, 0]]))
              = ''seviri''"
    by (simp_all add: with_attrs_def w sample_info_def)
  have g2': "\<exists>ds. get_dataset sample_base ?h ''VIS008'' ''counts'' sample_info = Inr ds
           \<and> pixels ds = [[Some 1, Some 2, Some 3, Some 4], [Some 4, None, None, None]]
           \<and> attr_units ds = ''1'' \<and> attr_sensor ds = ''seviri''"
    using g2 at by (intro exI conjI)
  from a r s rad' g2' g1 show ?thesis
    by (intro conjI)
qed


subsection \<open>Acquisition times\<close>

text \<open>
  C9. For every handler, \<open>start_time\<close> is the field \<open>TrueRepeatCycleStart\<close> and \<open>end_time\<close>
  is the field \<open>PlannedRepeatCycleEnd\<close> of the header record
  \<open>15_DATA_HEADER / ImageAcquisition / PlannedAcquisitionTime\<close>, each returned as it is.
\<close>

theorem start_end_time_verbatim:
  "start_time self =
     TrueRepeatCycleStart (PlannedAcquisitionTime (ImageAcquisition (DATA_HEADER (header self))))
   \<and> end_time self =
     PlannedRepeatCycleEnd (PlannedAcquisitionTime (ImageAcquisition (DATA_HEADER (header self))))"
  by (simp add: start_time_def end_time_def)

end
